theory Spec2Isabelle
  imports Main
begin

section \<open>Errors\<close>

text \<open>
  Go errors as values. \<open>errorString\<close> is what \<open>errors.New\<close> builds, \<open>wrapError\<close> what
  \<open>fmt.Errorf\<close> builds around a \<open>%w\<close> verb (the formatted message and the wrapped
  error), \<open>ErrRecordNotFound\<close> is gorm's sentinel, \<open>driverError\<close> any other error of the
  storage layer, and \<open>libraryError\<close> an error of the hashing or signing library.
\<close>

datatype error =
    errorString string
  | wrapError string error
  | ErrRecordNotFound
  | driverError string
  | libraryError string

fun Error :: "error \<Rightarrow> string" where
  "Error (errorString s) = s"
| "Error (wrapError s e) = s"
| "Error ErrRecordNotFound = ''record not found''"
| "Error (driverError s) = s"
| "Error (libraryError s) = s"

definition errors_New :: "string \<Rightarrow> error" where
  "errors_New s = errorString s"

text \<open>\<open>fmt.Errorf(prefix + "%w", err)\<close>: the message ends with the wrapped error's.\<close>

definition Errorf_w :: "string \<Rightarrow> error \<Rightarrow> error" where
  "Errorf_w prefix err = wrapError (prefix @ Error err) err"

text \<open>\<open>errors.Is(err, gorm.ErrRecordNotFound)\<close>: the sentinel, possibly wrapped.\<close>

fun errors_Is_ErrRecordNotFound :: "error \<Rightarrow> bool" where
  "errors_Is_ErrRecordNotFound ErrRecordNotFound = True"
| "errors_Is_ErrRecordNotFound (wrapError s e) = errors_Is_ErrRecordNotFound e"
| "errors_Is_ErrRecordNotFound e = False"

text \<open>The verb \<open>%d\<close> on an unsigned integer.\<close>

fun itoa :: "nat \<Rightarrow> string" where
  "itoa n = (if n < 10 then [''0123456789'' ! n]
             else itoa (n div 10) @ [''0123456789'' ! (n mod 10)])"

declare itoa.simps [simp del]

section \<open>Data model (internal/role/model.go, internal/auth/model.go, config/config.go)\<close>

text \<open>
  The structs of the source as records. The bookkeeping columns of \<open>gorm.Model\<close> other
  than the primary key (creation, update and deletion stamps) are left out: no function
  modelled here reads them. Times are nanoseconds since the Unix epoch.
\<close>

record Role =
  Role_ID :: nat
  Role_Name :: string
  Role_Description :: string

definition zero_Role :: Role where
  "zero_Role = \<lparr>Role_ID = 0, Role_Name = '''', Role_Description = ''''\<rparr>"

record User =
  User_ID :: nat
  User_Username :: string
  User_Email :: string
  User_Password :: string
  User_IsActive :: bool
  User_RoleID :: nat
  User_Role :: Role
  User_LastLogin :: "int option"

record LoginRequest =
  Login_Username :: string
  Login_Password :: string

record RegisterRequest =
  Reg_Username :: string
  Reg_Email :: string
  Reg_Password :: string
  Reg_RoleID :: nat

text \<open>
  \<open>Claims\<close> embeds \<open>jwt.RegisteredClaims\<close>, of which the source sets four fields; the
  three dates are pointers there and options here.
\<close>

record Claims =
  ExpiresAt :: "int option"
  IssuedAt :: "int option"
  NotBefore :: "int option"
  Subject :: string
  Claims_UserID :: nat
  Claims_Username :: string
  Claims_Email :: string
  Claims_Role :: string

record UserCompact =
  Compact_ID :: nat
  Compact_Username :: string
  Compact_Email :: string
  Compact_RoleName :: string
  Compact_IsActive :: bool

record AuthResponse =
  Auth_User :: UserCompact
  AccessToken :: string
  RefreshToken :: string

record UserResponse =
  Resp_ID :: nat
  Resp_Username :: string
  Resp_Email :: string
  Resp_IsActive :: bool
  Resp_RoleID :: nat
  Resp_RoleName :: string

text \<open>
  Of \<open>config.Config\<close> the authentication core reads the signing secret and the token
  lifetime; the other fields are connection and seeding settings.
\<close>

record Config =
  JWTSecret :: string
  JWTExpirationHours :: int

section \<open>The Credential Store\<close>

text \<open>
  The store behind \<open>*gorm.DB\<close>: the two tables in primary-key order (a stored user row
  has no embedded role, \<open>Preload\<close> fills it in), the sequence that numbers new users,
  and for every call site of the source the driver error it meets there, if any. The last
  field stands for all the ways a query may fail other than by finding nothing.
\<close>

datatype db_call =
    RegisterFindExisting
  | RegisterFindDefaultRole
  | RegisterFindRole
  | RegisterCreate
  | RegisterPreload
  | LoginFind
  | LoginSave
  | JWTFindRole

record DB =
  users :: "User list"
  roles :: "Role list"
  user_seq :: nat
  faults :: "db_call \<Rightarrow> string option"

text \<open>\<open>First\<close>: the first row in primary-key order that meets the conditions.\<close>

definition db_First :: "DB \<Rightarrow> db_call \<Rightarrow> ('row \<Rightarrow> bool) \<Rightarrow> 'row list \<Rightarrow> error + 'row" where
  "db_First db site cond rows =
     (case faults db site of
        Some msg \<Rightarrow> Inl (driverError msg)
      | None \<Rightarrow> (case find cond rows of
                   None \<Rightarrow> Inl ErrRecordNotFound
                 | Some row \<Rightarrow> Inr row))"

text \<open>\<open>Preload("Role")\<close>: the role the row refers to, the zero role if there is none.\<close>

definition preload_Role :: "DB \<Rightarrow> User \<Rightarrow> User" where
  "preload_Role db u =
     u\<lparr>User_Role := (case find (\<lambda>r. Role_ID r = User_RoleID u) (roles db) of
                       None \<Rightarrow> zero_Role
                     | Some r \<Rightarrow> r)\<rparr>"

text \<open>
  \<open>Create\<close>: a driver error, or a violation of one of the two unique indexes, adds no
  row; otherwise the row is appended under the next number of the sequence, which is
  returned as the new primary key.
\<close>

definition db_Create :: "DB \<Rightarrow> db_call \<Rightarrow> User \<Rightarrow> (error + nat) \<times> DB" where
  "db_Create db site u =
     (case faults db site of
        Some msg \<Rightarrow> (Inl (driverError msg), db)
      | None \<Rightarrow>
          if list_ex (\<lambda>v. User_Username v = User_Username u \<or> User_Email v = User_Email u) (users db)
          then (Inl (driverError ''duplicate key value violates unique constraint''), db)
          else let newID = Suc (user_seq db) in
               (Inr newID,
                db\<lparr>users := users db @ [u\<lparr>User_ID := newID, User_Role := zero_Role\<rparr>],
                   user_seq := newID\<rparr>))"

text \<open>\<open>Save\<close>: the row with the same primary key is replaced.\<close>

definition db_Save :: "DB \<Rightarrow> db_call \<Rightarrow> User \<Rightarrow> error option \<times> DB" where
  "db_Save db site u =
     (case faults db site of
        Some msg \<Rightarrow> (Some (driverError msg), db)
      | None \<Rightarrow>
          (None, db\<lparr>users := map (\<lambda>v. if User_ID v = User_ID u
                                         then u\<lparr>User_Role := zero_Role\<rparr> else v) (users db)\<rparr>))"

section \<open>Libraries the source calls\<close>

text \<open>
  The password hasher (bcrypt), the token codec (golang-jwt) and two checks of the request
  validator are third-party code. They are parameters of the model: every theorem below
  holds for whatever these functions compute, unless it states what it assumes of them.
  \<open>jwt_ParseWithClaims\<close> takes the token, the key function and the time at which the
  library reads the clock.
\<close>

datatype SigningMethod = SigningMethodHMAC string | SigningMethodOther string

record Token =
  Method :: SigningMethod
  Token_Claims :: Claims
  Valid :: bool

datatype jwt_sentinel =
    ErrTokenMalformed
  | ErrTokenUnverifiable
  | ErrTokenSignatureInvalid
  | ErrSignatureInvalid
  | ErrTokenInvalidClaims
  | ErrTokenExpired
  | ErrTokenNotValidYet
  | ErrOtherJWT

text \<open>
  An error of the token library: the sentinels \<open>errors.Is\<close> finds in it, and its text.
\<close>

record jwt_error =
  sentinels :: "jwt_sentinel list"
  jwt_text :: string

definition errors_Is :: "jwt_error \<Rightarrow> jwt_sentinel \<Rightarrow> bool" where
  "errors_Is err target = (target \<in> set (sentinels err))"

record Lib =
  bcrypt_GenerateFromPassword :: "string \<Rightarrow> error + string"
  bcrypt_CompareHashAndPassword :: "string \<Rightarrow> string \<Rightarrow> error option"
  jwt_SignedString :: "Claims \<Rightarrow> string \<Rightarrow> error + string"
  jwt_ParseWithClaims :: "string \<Rightarrow> (Token \<Rightarrow> jwt_sentinel + string) \<Rightarrow> int \<Rightarrow> jwt_error + Token"
  utf8_RuneCountInString :: "string \<Rightarrow> nat"
  validator_email :: "string \<Rightarrow> bool"

section \<open>Time\<close>

text \<open>
  \<open>time.Duration\<close> is a signed 64-bit count of nanoseconds, and its multiplication
  wraps around. Every call of \<open>time.Now\<close> in the source is a reading of its own; a
  \<open>Clock\<close> holds them, named after the place that reads.
\<close>

definition Second :: int where
  "Second = 1000000000"

definition Hour :: int where
  "Hour = 3600 * Second"

definition int64 :: "int \<Rightarrow> int" where
  "int64 x = (x + 2 ^ 63) mod 2 ^ 64 - 2 ^ 63"

definition Duration_mul :: "int \<Rightarrow> int \<Rightarrow> int" where
  "Duration_mul a b = int64 (int64 a * b)"

definition time_Add :: "int \<Rightarrow> int \<Rightarrow> int" where
  "time_Add t d = t + d"

text \<open>\<open>jwt.NewNumericDate\<close> truncates to the second.\<close>

definition NewNumericDate :: "int \<Rightarrow> int option" where
  "NewNumericDate t = Some ((t div Second) * Second)"

record Clock =
  now_login :: int
  now_exp :: int
  now_exp_default :: int
  now_iat :: int
  now_nbf :: int

section \<open>The Auth Service (internal/auth/service.go)\<close>

definition HashPassword :: "Lib \<Rightarrow> string \<Rightarrow> error + string" where
  "HashPassword lib password =
     (case bcrypt_GenerateFromPassword lib password of
        Inl err \<Rightarrow> Inl err
      | Inr hashedPassword \<Rightarrow> Inr hashedPassword)"

definition ValidatePassword :: "Lib \<Rightarrow> string \<Rightarrow> string \<Rightarrow> error option" where
  "ValidatePassword lib hashedPassword plainPassword =
     bcrypt_CompareHashAndPassword lib hashedPassword plainPassword"

text \<open>
  The role a registration refers to: the role named staff when the request names none,
  the role of the given number otherwise.
\<close>

definition resolve_roleID :: "DB \<Rightarrow> RegisterRequest \<Rightarrow> error + nat" where
  "resolve_roleID db req =
     (if Reg_RoleID req = 0
      then (case db_First db RegisterFindDefaultRole (\<lambda>r. Role_Name r = ''staff'') (roles db) of
              Inl err \<Rightarrow>
                if errors_Is_ErrRecordNotFound err
                then Inl (errors_New
                            ''default 'staff' role not found. Please ensure roles are seeded'')
                else Inl (Errorf_w ''failed to fetch default 'staff' role: '' err)
            | Inr userRole \<Rightarrow> Inr (Role_ID userRole))
      else (case db_First db RegisterFindRole (\<lambda>r. Role_ID r = Reg_RoleID req) (roles db) of
              Inl err \<Rightarrow>
                if errors_Is_ErrRecordNotFound err
                then Inl (errors_New (''role with ID '' @ itoa (Reg_RoleID req) @ '' not found''))
                else Inl (Errorf_w
                            (''failed to verify role ID '' @ itoa (Reg_RoleID req) @ '': '') err)
            | Inr userRole \<Rightarrow> Inr (Reg_RoleID req)))"

text \<open>
  \<open>RegisterUser\<close> returns its result and the store it leaves. A failure of the final
  reload is only logged by the source: the user is returned as created.
\<close>

definition RegisterUser :: "Lib \<Rightarrow> DB \<Rightarrow> RegisterRequest \<Rightarrow> (error + User) \<times> DB" where
  "RegisterUser lib db req =
     (case db_First db RegisterFindExisting
             (\<lambda>u. User_Username u = Reg_Username req \<or> User_Email u = Reg_Email req) (users db) of
        Inr existingUser \<Rightarrow> (Inl (errors_New ''username or email already exists''), db)
      | Inl err \<Rightarrow>
          if \<not> errors_Is_ErrRecordNotFound err
          then (Inl (Errorf_w ''database error while checking existing user: '' err), db)
          else
            (case HashPassword lib (Reg_Password req) of
               Inl err \<Rightarrow> (Inl (Errorf_w ''failed to hash password: '' err), db)
             | Inr hashedPassword \<Rightarrow>
                 (case resolve_roleID db req of
                    Inl err \<Rightarrow> (Inl err, db)
                  | Inr roleID \<Rightarrow>
                      let newUser = \<lparr>User_ID = 0,
                                     User_Username = Reg_Username req,
                                     User_Email = Reg_Email req,
                                     User_Password = hashedPassword,
                                     User_IsActive = True,
                                     User_RoleID = roleID,
                                     User_Role = zero_Role,
                                     User_LastLogin = None\<rparr>
                      in (case db_Create db RegisterCreate newUser of
                            (Inl err, db') \<Rightarrow> (Inl (Errorf_w ''failed to create user: '' err), db')
                          | (Inr newID, db') \<Rightarrow>
                              (case db_First db' RegisterPreload
                                      (\<lambda>u. User_ID u = newID) (users db') of
                                 Inl err \<Rightarrow> (Inr (newUser\<lparr>User_ID := newID\<rparr>), db')
                               | Inr row \<Rightarrow> (Inr (preload_Role db' row), db'))))))"

text \<open>
  \<open>GenerateJWT\<close> takes the user by pointer and may fill in the role name, so the model
  returns the user as well. The token's lifetime is the configured number of hours, seven
  days if that number is zero.
\<close>

definition token_ttl :: "Config \<Rightarrow> int" where
  "token_ttl cfg =
     (if JWTExpirationHours cfg = 0 then 24 * 7 * Hour
      else Duration_mul (JWTExpirationHours cfg) Hour)"

definition jwt_claims :: "Config \<Rightarrow> Clock \<Rightarrow> User \<Rightarrow> Claims" where
  "jwt_claims cfg clk user =
     (let expirationTime = time_Add (now_exp clk) (Duration_mul (JWTExpirationHours cfg) Hour);
          expirationTime = (if JWTExpirationHours cfg = 0
                            then time_Add (now_exp_default clk) (24 * 7 * Hour)
                            else expirationTime)
      in \<lparr>ExpiresAt = NewNumericDate expirationTime,
          IssuedAt = NewNumericDate (now_iat clk),
          NotBefore = NewNumericDate (now_nbf clk),
          Subject = itoa (User_ID user),
          Claims_UserID = User_ID user,
          Claims_Username = User_Username user,
          Claims_Email = User_Email user,
          Claims_Role = Role_Name (User_Role user)\<rparr>)"

definition GenerateJWT :: "Lib \<Rightarrow> DB \<Rightarrow> Config \<Rightarrow> Clock \<Rightarrow> User \<Rightarrow> (error + string) \<times> User" where
  "GenerateJWT lib db cfg clk user =
     (case (if Role_Name (User_Role user) = '''' \<and> User_RoleID user \<noteq> 0
            then (case db_First db JWTFindRole (\<lambda>r. Role_ID r = User_RoleID user) (roles db) of
                    Inl err \<Rightarrow>
                      Inl (Errorf_w (''could not retrieve role name (ID: ''
                                      @ itoa (User_RoleID user) @ '') for JWT generation: '') err)
                  | Inr roleFromDB \<Rightarrow>
                      Inr (user\<lparr>User_Role := (User_Role user)\<lparr>Role_Name := Role_Name roleFromDB\<rparr>\<rparr>))
            else if Role_Name (User_Role user) = '''' \<and> User_RoleID user = 0
            then Inl (errors_New ''user has no RoleID or Role.Name for JWT generation'')
            else Inr user) of
        Inl err \<Rightarrow> (Inl err, user)
      | Inr user' \<Rightarrow>
          (case jwt_SignedString lib (jwt_claims cfg clk user') (JWTSecret cfg) of
             Inl err \<Rightarrow> (Inl (Errorf_w ''failed to sign JWT token: '' err), user')
           | Inr signedToken \<Rightarrow> (Inr signedToken, user')))"

text \<open>
  \<open>LoginUser\<close>: a failure to save the time of the login is only logged by the source.
\<close>

definition LoginUser :: "Lib \<Rightarrow> Config \<Rightarrow> Clock \<Rightarrow> DB \<Rightarrow> LoginRequest \<Rightarrow> (error + AuthResponse) \<times> DB" where
  "LoginUser lib cfg clk db req =
     (case db_First db LoginFind
             (\<lambda>u. User_Username u = Login_Username req \<or> User_Email u = Login_Username req)
             (users db) of
        Inl err \<Rightarrow>
          if errors_Is_ErrRecordNotFound err
          then (Inl (errors_New ''invalid username or password''), db)
          else (Inl (Errorf_w ''database error during login: '' err), db)
      | Inr row \<Rightarrow>
          let user = preload_Role db row in
          if \<not> User_IsActive user
          then (Inl (errors_New ''user account is inactive''), db)
          else
            (case ValidatePassword lib (User_Password user) (Login_Password req) of
               Some err \<Rightarrow> (Inl (errors_New ''invalid username or password''), db)
             | None \<Rightarrow>
                 let user = user\<lparr>User_LastLogin := Some (now_login clk)\<rparr>;
                     db' = snd (db_Save db LoginSave user)
                 in (case GenerateJWT lib db' cfg clk user of
                       (Inl err, user') \<Rightarrow>
                         (Inl (Errorf_w ''failed to generate access token: '' err), db')
                     | (Inr accessToken, user') \<Rightarrow>
                         (Inr \<lparr>Auth_User = \<lparr>Compact_ID = User_ID user',
                                             Compact_Username = User_Username user',
                                             Compact_Email = User_Email user',
                                             Compact_RoleName = Role_Name (User_Role user'),
                                             Compact_IsActive = User_IsActive user'\<rparr>,
                               AccessToken = accessToken,
                               RefreshToken = ''''\<rparr>, db'))))"

section \<open>The HTTP boundary of the Auth Service (internal/auth/handler.go)\<close>

text \<open>
  What a handler sends: \<open>utils.SendErrorResponse\<close> and \<open>utils.SendSuccessResponse\<close> with
  the status code, the message and, on success, the data. \<open>any\<close> is a value of type
  \<open>interface{}\<close>: a string, an unsigned integer, or a value of some other type.
\<close>

datatype any = AnyString string | AnyUint nat | AnyOther nat

datatype payload =
    AuthData AuthResponse
  | UserData UserResponse
  | H "(string \<times> any option) list"

datatype response =
    ErrorResponse nat string
  | SuccessResponse nat string payload

fun status :: "response \<Rightarrow> nat" where
  "status (ErrorResponse code msg) = code"
| "status (SuccessResponse code msg d) = code"

text \<open>
  The body of a request as the JSON decoder leaves it: a decoding error, or the struct
  with every absent field at its zero value. \<open>ShouldBindJSON\<close> then checks the
  \<open>binding\<close> tags of model.go field by field; a field fails on its first failing tag.
  The tag \<open>required\<close> rejects the zero value, \<open>min\<close> and \<open>max\<close> count runes.
\<close>

datatype 'a json_body = BadJSON string | JSON 'a

definition quoted :: "string \<Rightarrow> string" where
  "quoted s = [CHR 0x27] @ s @ [CHR 0x27]"

definition field_error :: "string \<Rightarrow> string \<Rightarrow> string \<Rightarrow> string" where
  "field_error struct field tag =
     ''Key: '' @ quoted (struct @ ''.'' @ field) @ '' Error:Field validation for ''
       @ quoted field @ '' failed on the '' @ quoted tag @ '' tag''"

fun join_lines :: "string list \<Rightarrow> string" where
  "join_lines [] = ''''"
| "join_lines [l] = l"
| "join_lines (l # ls) = l @ [CHR 0x0A] @ join_lines ls"

definition validate_LoginRequest :: "LoginRequest \<Rightarrow> string list" where
  "validate_LoginRequest req =
     (if Login_Username req = '''' then [field_error ''LoginRequest'' ''Username'' ''required'']
      else [])
     @ (if Login_Password req = '''' then [field_error ''LoginRequest'' ''Password'' ''required'']
        else [])"

definition validate_RegisterRequest :: "Lib \<Rightarrow> RegisterRequest \<Rightarrow> string list" where
  "validate_RegisterRequest lib req =
     (if Reg_Username req = ''''
      then [field_error ''RegisterRequest'' ''Username'' ''required'']
      else if utf8_RuneCountInString lib (Reg_Username req) < 3
      then [field_error ''RegisterRequest'' ''Username'' ''min'']
      else if utf8_RuneCountInString lib (Reg_Username req) > 100
      then [field_error ''RegisterRequest'' ''Username'' ''max'']
      else [])
     @ (if Reg_Email req = ''''
        then [field_error ''RegisterRequest'' ''Email'' ''required'']
        else if validator_email lib (Reg_Email req) then []
        else [field_error ''RegisterRequest'' ''Email'' ''email''])
     @ (if Reg_Password req = ''''
        then [field_error ''RegisterRequest'' ''Password'' ''required'']
        else if utf8_RuneCountInString lib (Reg_Password req) < 6
        then [field_error ''RegisterRequest'' ''Password'' ''min'']
        else if utf8_RuneCountInString lib (Reg_Password req) > 72
        then [field_error ''RegisterRequest'' ''Password'' ''max'']
        else [])"

definition ShouldBindJSON :: "('a \<Rightarrow> string list) \<Rightarrow> 'a json_body \<Rightarrow> string + 'a" where
  "ShouldBindJSON validate body =
     (case body of
        BadJSON msg \<Rightarrow> Inl msg
      | JSON req \<Rightarrow> (case validate req of [] \<Rightarrow> Inr req | errs \<Rightarrow> Inl (join_lines errs)))"

text \<open>
  The handlers hold the service behind the interface \<open>AuthService\<close>; in the model it is
  the parameter \<open>service\<close>, which takes the store and returns it.
\<close>

definition Register ::
  "Lib \<Rightarrow> (DB \<Rightarrow> RegisterRequest \<Rightarrow> (error + User) \<times> DB) \<Rightarrow> RegisterRequest json_body \<Rightarrow> DB
     \<Rightarrow> response \<times> DB" where
  "Register lib service body db =
     (case ShouldBindJSON (validate_RegisterRequest lib) body of
        Inl err \<Rightarrow> (ErrorResponse 400 (''Invalid request payload: '' @ err), db)
      | Inr req \<Rightarrow>
          if Reg_Username req = '''' \<or> Reg_Email req = '''' \<or> Reg_Password req = ''''
          then (ErrorResponse 400 ''Username, email, and password are required'', db)
          else if length (Reg_Password req) < 6
          then (ErrorResponse 400 ''Password must be at least 6 characters long'', db)
          else
            (case service db req of
               (Inl err, db') \<Rightarrow>
                 if Error err = ''username or email already exists''
                 then (ErrorResponse 400 (Error err), db')
                 else if Error err = ''default 'staff' role not found. Please ensure roles are seeded''
                 then (ErrorResponse 500 (Error err), db')
                 else if length (Error err) > 18 \<and> take 18 (Error err) = ''role with ID''
                 then (ErrorResponse 400 (Error err), db')
                 else (ErrorResponse 500 (''Failed to register user: '' @ Error err), db')
             | (Inr user, db') \<Rightarrow>
                 (SuccessResponse 201 ''User registered successfully''
                    (UserData \<lparr>Resp_ID = User_ID user,
                               Resp_Username = User_Username user,
                               Resp_Email = User_Email user,
                               Resp_IsActive = User_IsActive user,
                               Resp_RoleID = User_RoleID user,
                               Resp_RoleName = (if Role_Name (User_Role user) \<noteq> ''''
                                                then Role_Name (User_Role user) else '''')\<rparr>),
                  db')))"

definition Login ::
  "(DB \<Rightarrow> LoginRequest \<Rightarrow> (error + AuthResponse) \<times> DB) \<Rightarrow> LoginRequest json_body \<Rightarrow> DB
     \<Rightarrow> response \<times> DB" where
  "Login service body db =
     (case ShouldBindJSON validate_LoginRequest body of
        Inl err \<Rightarrow> (ErrorResponse 400 (''Invalid request payload: '' @ err), db)
      | Inr req \<Rightarrow>
          (case service db req of
             (Inl err, db') \<Rightarrow>
               if errors_Is_ErrRecordNotFound err \<or> Error err = ''invalid username or password''
               then (ErrorResponse 401 ''Invalid username or password'', db')
               else if Error err = ''user account is inactive''
               then (ErrorResponse 401 (Error err), db')
               else (ErrorResponse 500 (''Login failed: '' @ Error err), db')
           | (Inr authResponse, db') \<Rightarrow>
               (SuccessResponse 200 ''Login successful'' (AuthData authResponse), db')))"

section \<open>The Token Codec's parse\<close>

text \<open>
  Modelled from the spec: the parse of the Token Codec (\<open>jwt.ParseWithClaims\<close> of
  golang-jwt, which is not among the sources). Section 4.2 has it fail with a
  distinguishable condition for a malformed structure, an unsupported signing algorithm,
  an invalid signature, a token not yet valid and an expired one, and section 8 has a
  token valid strictly before its expiry and expired from then on. The decoding of the
  three segments and the check of the signature stay abstract, as the two fields of a
  \<open>Codec\<close>; the key comes from the caller's key function; the dates are checked last,
  against the time \<open>now\<close>.
\<close>

record Codec =
  ParseUnverified :: "string \<Rightarrow> jwt_error + Token"
  Verify :: "string \<Rightarrow> string \<Rightarrow> jwt_error option"

fun sentinel_text :: "jwt_sentinel \<Rightarrow> string" where
  "sentinel_text ErrTokenMalformed = ''token is malformed''"
| "sentinel_text ErrTokenUnverifiable = ''token is unverifiable''"
| "sentinel_text ErrTokenSignatureInvalid = ''token signature is invalid''"
| "sentinel_text ErrSignatureInvalid = ''signature is invalid''"
| "sentinel_text ErrTokenInvalidClaims = ''token has invalid claims''"
| "sentinel_text ErrTokenExpired = ''token is expired''"
| "sentinel_text ErrTokenNotValidYet = ''token is not valid yet''"
| "sentinel_text ErrOtherJWT = ''invalid token''"

fun join_with :: "string \<Rightarrow> string list \<Rightarrow> string" where
  "join_with sep [] = ''''"
| "join_with sep [l] = l"
| "join_with sep (l # ls) = l @ sep @ join_with sep ls"

text \<open>
  Modelled from the spec: the check of the dates, which golang-jwt makes and the sources
  do not hold. A token is valid from its not-before date on and strictly before its
  expires-at date; an absent date is not checked.
\<close>

definition jwt_Validate :: "Claims \<Rightarrow> int \<Rightarrow> jwt_sentinel list" where
  "jwt_Validate claims now =
     (case ExpiresAt claims of
        None \<Rightarrow> []
      | Some exp \<Rightarrow> if now < exp then [] else [ErrTokenExpired])
     @ (case NotBefore claims of
          None \<Rightarrow> []
        | Some nbf \<Rightarrow> if now < nbf then [ErrTokenNotValidYet] else [])"

text \<open>
  Modelled from the spec: the order of the parse, which golang-jwt fixes and the sources
  do not hold: decoding, the key function, the signature, then the dates.
\<close>

definition TokenCodec_parse ::
  "Codec \<Rightarrow> string \<Rightarrow> (Token \<Rightarrow> jwt_sentinel + string) \<Rightarrow> int \<Rightarrow> jwt_error + Token" where
  "TokenCodec_parse codec tokenString keyFunc now =
     (case ParseUnverified codec tokenString of
        Inl err \<Rightarrow> Inl err
      | Inr token \<Rightarrow>
          (case keyFunc token of
             Inl e \<Rightarrow>
               Inl \<lparr>sentinels = [ErrTokenUnverifiable, e],
                    jwt_text = ''token is unverifiable: error while executing keyfunc: ''
                                 @ sentinel_text e\<rparr>
           | Inr key \<Rightarrow>
               (case Verify codec tokenString key of
                  Some err \<Rightarrow> Inl err
                | None \<Rightarrow>
                    (case jwt_Validate (Token_Claims token) now of
                       [] \<Rightarrow> Inr (token\<lparr>Valid := True\<rparr>)
                     | errs \<Rightarrow>
                         Inl \<lparr>sentinels = ErrTokenInvalidClaims # errs,
                              jwt_text = ''token has invalid claims: ''
                                           @ join_with '', '' (map sentinel_text errs)\<rparr>))))"

section \<open>The request context and the handler chain (gin)\<close>

text \<open>
  Of \<open>gin.Context\<close>: the request's headers, the keys set for the request, what has been
  written as the response, and whether the chain was aborted. A handler maps the context to
  the context. When a handler returns without \<open>Abort\<close>, the handlers after it in the
  chain run; \<open>c.Next()\<close> as a handler's last statement does the same, and is modelled as
  returning.
\<close>

record Context =
  Header :: "string \<Rightarrow> string option"
  Keys :: "string \<Rightarrow> any option"
  Writer :: "response list"
  Aborted :: bool

type_synonym HandlerFunc = "Context \<Rightarrow> Context"

definition GetHeader :: "Context \<Rightarrow> string \<Rightarrow> string" where
  "GetHeader c key = (case Header c key of None \<Rightarrow> '''' | Some v \<Rightarrow> v)"

definition Get :: "Context \<Rightarrow> string \<Rightarrow> any option" where
  "Get c key = Keys c key"

definition Set :: "string \<Rightarrow> any \<Rightarrow> Context \<Rightarrow> Context" where
  "Set key v c = c\<lparr>Keys := (Keys c)(key := Some v)\<rparr>"

definition Abort :: "Context \<Rightarrow> Context" where
  "Abort c = c\<lparr>Aborted := True\<rparr>"

definition SendErrorResponse :: "Context \<Rightarrow> nat \<Rightarrow> string \<Rightarrow> Context" where
  "SendErrorResponse c statusCode message =
     c\<lparr>Writer := Writer c @ [ErrorResponse statusCode message]\<rparr>"

definition SendSuccessResponse :: "Context \<Rightarrow> nat \<Rightarrow> string \<Rightarrow> payload \<Rightarrow> Context" where
  "SendSuccessResponse c statusCode message d =
     c\<lparr>Writer := Writer c @ [SuccessResponse statusCode message d]\<rparr>"

fun run_handlers :: "HandlerFunc list \<Rightarrow> Context \<Rightarrow> Context" where
  "run_handlers [] c = c"
| "run_handlers (h # hs) c = (let c' = h c in if Aborted c' then c' else run_handlers hs c')"

section \<open>The Authorization Gate (middleware/rbac.go)\<close>

text \<open>\<open>slices.Contains\<close>.\<close>

definition slices_Contains :: "string list \<Rightarrow> string \<Rightarrow> bool" where
  "slices_Contains s v = (v \<in> set s)"

definition RBACMiddleware :: "string list \<Rightarrow> HandlerFunc" where
  "RBACMiddleware allowedRoles c =
     (case Get c ''role'' of
        None \<Rightarrow>
          Abort (SendErrorResponse c 403
            ''Access Denied: User role not found in context. Ensure AuthMiddleware runs first.'')
      | Some userRoleInterface \<Rightarrow>
          (case userRoleInterface of
             AnyString userRole \<Rightarrow>
               if length userRole = 0
               then Abort (SendErrorResponse c 403 ''Access Denied: User role is empty.'')
               else if \<not> slices_Contains allowedRoles userRole
               then Abort (SendErrorResponse c 403
                      ''Access Denied: You do not have the required role for this resource.'')
               else c
           | AnyUint n \<Rightarrow>
               Abort (SendErrorResponse c 500
                 ''Server Error: User role in context is not of expected type.'')
           | AnyOther x \<Rightarrow>
               Abort (SendErrorResponse c 500
                 ''Server Error: User role in context is not of expected type.'')))"

section \<open>The Authentication Gate (middleware/auth.go)\<close>

text \<open>
  \<open>strings.Split\<close> on a separator of one byte, and \<open>strings.EqualFold\<close>. The latter
  is modelled on its ASCII letters, which is exact when one argument is \<open>bearer\<close>: no
  letter of that word has a fold outside ASCII.
\<close>

fun strings_Split :: "string \<Rightarrow> char \<Rightarrow> string list" where
  "strings_Split [] sep = [[]]"
| "strings_Split (x # xs) sep =
     (if x = sep then [] # strings_Split xs sep
      else (case strings_Split xs sep of
              [] \<Rightarrow> [[x]]
            | p # ps \<Rightarrow> (x # p) # ps))"

definition to_lower :: "char \<Rightarrow> char" where
  "to_lower ch =
     (let n = (of_char ch :: nat) in if 65 \<le> n \<and> n \<le> 90 then char_of (n + 32) else ch)"

definition strings_EqualFold :: "string \<Rightarrow> string \<Rightarrow> bool" where
  "strings_EqualFold s t = (map to_lower s = map to_lower t)"

text \<open>The key function the gate hands to the parser.\<close>

definition keyFunc :: "string \<Rightarrow> Token \<Rightarrow> jwt_sentinel + string" where
  "keyFunc jwtSecret token =
     (case Method token of
        SigningMethodHMAC alg \<Rightarrow> Inr jwtSecret
      | SigningMethodOther alg \<Rightarrow> Inl ErrSignatureInvalid)"

definition errMsg :: "jwt_error \<Rightarrow> string" where
  "errMsg err =
     (if errors_Is err ErrTokenMalformed then ''Token is malformed.''
      else if errors_Is err ErrTokenExpired then ''Token has expired.''
      else if errors_Is err ErrTokenNotValidYet then ''Token not yet valid.''
      else if errors_Is err ErrSignatureInvalid
      then ''Token signature is invalid or signing method is not supported.''
      else ''Invalid token: '' @ jwt_text err)"

definition AuthMiddleware :: "Lib \<Rightarrow> string \<Rightarrow> int \<Rightarrow> HandlerFunc" where
  "AuthMiddleware lib jwtSecret now c =
     (let authHeader = GetHeader c ''Authorization'' in
      if authHeader = ''''
      then Abort (SendErrorResponse c 401 ''Authorization header is required'')
      else
        let parts = strings_Split authHeader CHR '' '' in
        if length parts \<noteq> 2
        then Abort (SendErrorResponse c 401 ''Authorization header format must be Bearer {token}'')
        else if \<not> strings_EqualFold (parts ! 0) ''bearer''
        then Abort (SendErrorResponse c 401 ''Authorization header format must be Bearer {token}'')
        else
          let tokenString = parts ! 1 in
          (case jwt_ParseWithClaims lib tokenString (keyFunc jwtSecret) now of
             Inl err \<Rightarrow> Abort (SendErrorResponse c 401 (errMsg err))
           | Inr token \<Rightarrow>
               if \<not> Valid token
               then Abort (SendErrorResponse c 401 ''Token is invalid.'')
               else
                 let claims = Token_Claims token in
                 Set ''role'' (AnyString (Claims_Role claims))
                   (Set ''email'' (AnyString (Claims_Email claims))
                     (Set ''username'' (AnyString (Claims_Username claims))
                       (Set ''userID'' (AnyUint (Claims_UserID claims)) c)))))"

section \<open>The protected route groups (routes/router.go)\<close>

text \<open>
  \<open>SetupRoutes\<close> receives the store and the configuration. The protected group uses the
  Authentication Gate with the configured secret; each group below it adds the
  Authorization Gate with its own list of roles, then its handlers.
\<close>

definition protected :: "Lib \<Rightarrow> DB \<Rightarrow> Config \<Rightarrow> int \<Rightarrow> HandlerFunc list \<Rightarrow> HandlerFunc" where
  "protected lib db cfg now handlers =
     run_handlers (AuthMiddleware lib (JWTSecret cfg) now # handlers)"

definition adminRoutes :: "string list" where
  "adminRoutes = [''admin'', ''god-admin'']"

definition hrRoutes :: "string list" where
  "hrRoutes = [''hr'', ''admin'', ''god-admin'']"

definition managerRoutes :: "string list" where
  "managerRoutes = [''manager'', ''hr'', ''admin'', ''god-admin'']"

definition staffAccessibleRoutes :: "string list" where
  "staffAccessibleRoutes = [''staff'', ''manager'', ''hr'', ''admin'', ''god-admin'']"

definition route_groups :: "string list list" where
  "route_groups = [adminRoutes, hrRoutes, managerRoutes, staffAccessibleRoutes]"

definition me :: HandlerFunc where
  "me c =
     SendSuccessResponse c 200 ''Current user profile fetched successfully''
       (H [(''id'', Get c ''userID''), (''username'', Get c ''username''),
           (''email'', Get c ''email''), (''role'', Get c ''role'')])"

definition employee_data :: HandlerFunc where
  "employee_data c =
     SendSuccessResponse c 200 ''Sensitive Employee Data (Mock)''
       (H [(''data'', Some (AnyString
         ''This is mock HR-specific employee data accessible by HR, Admin, GodAdmin.''))])"

definition hr_employee_data :: "Lib \<Rightarrow> DB \<Rightarrow> Config \<Rightarrow> int \<Rightarrow> HandlerFunc" where
  "hr_employee_data lib db cfg now =
     protected lib db cfg now [RBACMiddleware hrRoutes, employee_data]"

text \<open>The Identity Context: the four keys the Authentication Gate sets from the claims.\<close>

definition identity_context :: "Claims \<Rightarrow> Context \<Rightarrow> Context" where
  "identity_context claims c =
     Set ''role'' (AnyString (Claims_Role claims))
       (Set ''email'' (AnyString (Claims_Email claims))
         (Set ''username'' (AnyString (Claims_Username claims))
           (Set ''userID'' (AnyUint (Claims_UserID claims)) c)))"

section \<open>Concrete values for the scenarios\<close>

text \<open>
  The context of a fresh request, and stand-ins for the libraries: a hasher that marks
  the password, and a codec that knows the tokens of a table and the one secret they
  were signed with.
\<close>

definition new_Context :: "(string \<Rightarrow> string option) \<Rightarrow> Context" where
  "new_Context hdrs = \<lparr>Header = hdrs, Keys = (\<lambda>k. None), Writer = [], Aborted = False\<rparr>"

definition stub_codec :: "string \<Rightarrow> (string \<times> Claims) list \<Rightarrow> Codec" where
  "stub_codec secret issued =
     \<lparr>ParseUnverified = (\<lambda>tokenString.
         case map_of issued tokenString of
           None \<Rightarrow> Inl \<lparr>sentinels = [ErrTokenMalformed],
                        jwt_text = ''token is malformed: token contains an invalid number of segments''\<rparr>
         | Some claims \<Rightarrow>
             Inr \<lparr>Method = SigningMethodHMAC ''HS256'', Token_Claims = claims, Valid = False\<rparr>),
      Verify = (\<lambda>tokenString key.
         if key = secret then None
         else Some \<lparr>sentinels = [ErrTokenSignatureInvalid, ErrSignatureInvalid],
                    jwt_text = ''token signature is invalid: signature is invalid''\<rparr>)\<rparr>"

definition stub_lib :: "string \<Rightarrow> (string \<times> Claims) list \<Rightarrow> Lib" where
  "stub_lib secret issued =
     \<lparr>bcrypt_GenerateFromPassword = (\<lambda>password. Inr (''$2a$10$'' @ password)),
      bcrypt_CompareHashAndPassword = (\<lambda>hashed plain.
         if hashed = ''$2a$10$'' @ plain then None
         else Some (libraryError
           ''crypto/bcrypt: hashedPassword is not the hash of the given password'')),
      jwt_SignedString = (\<lambda>claims key.
         case find (\<lambda>entry. snd entry = claims) issued of
           None \<Rightarrow> Inl (libraryError ''key is invalid'')
         | Some entry \<Rightarrow> Inr (fst entry)),
      jwt_ParseWithClaims = TokenCodec_parse (stub_codec secret issued),
      utf8_RuneCountInString = length,
      validator_email = (\<lambda>s. CHR ''@'' \<in> set s)\<rparr>"

definition demo_claims :: "string \<Rightarrow> Claims" where
  "demo_claims role =
     \<lparr>ExpiresAt = Some (2000 * Second), IssuedAt = Some (1000 * Second),
      NotBefore = Some (1000 * Second), Subject = ''1'', Claims_UserID = 1,
      Claims_Username = ''alice'', Claims_Email = ''alice@x.com'', Claims_Role = role\<rparr>"

definition demo_cfg :: Config where
  "demo_cfg = \<lparr>JWTSecret = ''secret'', JWTExpirationHours = 168\<rparr>"

definition empty_db :: DB where
  "empty_db = \<lparr>users = [], roles = [], user_seq = 0, faults = (\<lambda>site. None)\<rparr>"

definition bearer_request :: "string \<Rightarrow> Context" where
  "bearer_request tokenString =
     new_Context (\<lambda>k. if k = ''Authorization'' then Some (''Bearer '' @ tokenString) else None)"

text \<open>
  The scenario of the spec: a store where only the role staff exists, the registration of
  alice, and the store after it.
\<close>

definition staff_role :: Role where
  "staff_role = \<lparr>Role_ID = 1, Role_Name = ''staff'',
                  Role_Description = ''Regular employee with basic access.''\<rparr>"

definition seeded_db :: DB where
  "seeded_db = \<lparr>users = [], roles = [staff_role], user_seq = 0, faults = (\<lambda>site. None)\<rparr>"

definition alice_request :: RegisterRequest where
  "alice_request = \<lparr>Reg_Username = ''alice'', Reg_Email = ''alice@x.com'',
                     Reg_Password = ''secret1'', Reg_RoleID = 0\<rparr>"

definition alice_row :: User where
  "alice_row = \<lparr>User_ID = 1, User_Username = ''alice'', User_Email = ''alice@x.com'',
                 User_Password = ''$2a$10$secret1'', User_IsActive = True, User_RoleID = 1,
                 User_Role = zero_Role, User_LastLogin = None\<rparr>"

definition alice_db :: DB where
  "alice_db = \<lparr>users = [alice_row], roles = [staff_role], user_seq = 1,
                faults = (\<lambda>site. None)\<rparr>"

text \<open>
  A second account, deactivated, and the readings of the clock during a login a thousand
  seconds into the epoch.
\<close>

definition bob_row :: User where
  "bob_row = \<lparr>User_ID = 2, User_Username = ''bob'', User_Email = ''bob@x.com'',
               User_Password = ''$2a$10$hunter22'', User_IsActive = False, User_RoleID = 1,
               User_Role = zero_Role, User_LastLogin = None\<rparr>"

definition office_db :: DB where
  "office_db = \<lparr>users = [alice_row, bob_row], roles = [staff_role], user_seq = 2,
                 faults = (\<lambda>site. None)\<rparr>"

definition demo_clock :: Clock where
  "demo_clock = \<lparr>now_login = 1000 * Second + 100, now_exp = 1000 * Second + 200,
                  now_exp_default = 1000 * Second + 300, now_iat = 1000 * Second + 400,
                  now_nbf = 1000 * Second + 500\<rparr>"

text \<open>
  The reading of the clock that \<open>GenerateJWT\<close> adds the lifetime to, a clock whose
  readings all fall on one instant, and alice as \<open>LoginUser\<close> loads her.
\<close>

definition exp_reading :: "Config \<Rightarrow> Clock \<Rightarrow> int" where
  "exp_reading cfg clk = (if JWTExpirationHours cfg = 0 then now_exp_default clk else now_exp clk)"

definition instant_clock :: "int \<Rightarrow> Clock" where
  "instant_clock t = \<lparr>now_login = t, now_exp = t, now_exp_default = t, now_iat = t, now_nbf = t\<rparr>"

definition alice :: User where
  "alice = alice_row\<lparr>User_Role := staff_role\<rparr>"

text \<open>The codec that knows the one token issued to alice under the given clock.\<close>

definition alice_codec :: "Clock \<Rightarrow> Codec" where
  "alice_codec clk = stub_codec ''secret'' [(''tok'', jwt_claims demo_cfg clk alice)]"

definition alice_lib :: "Clock \<Rightarrow> Lib" where
  "alice_lib clk = stub_lib ''secret'' [(''tok'', jwt_claims demo_cfg clk alice)]"


text \<open>
  The store after alice's login at the instant \<open>t\<close>, and the store after an
  administrator has then deactivated her and moved her to another role.
\<close>

definition alice_logged_in_db :: "int \<Rightarrow> DB" where
  "alice_logged_in_db t =
     alice_db\<lparr>users := [alice_row\<lparr>User_LastLogin := Some t\<rparr>]\<rparr>"

definition alice_deactivated_db :: "int \<Rightarrow> DB" where
  "alice_deactivated_db t =
     alice_db\<lparr>users := [alice_row\<lparr>User_LastLogin := Some t, User_IsActive := False,
                                    User_RoleID := 7\<rparr>]\<rparr>"

text \<open>
  A store in which the username of one account is the email of another: ann registered
  first, under the username \<open>bob@x.com\<close>, then bob, who was deactivated later.
\<close>

definition ann_request :: RegisterRequest where
  "ann_request = \<lparr>Reg_Username = ''bob@x.com'', Reg_Email = ''ann@x.com'',
                   Reg_Password = ''annpass1'', Reg_RoleID = 0\<rparr>"

definition bob_request :: RegisterRequest where
  "bob_request = \<lparr>Reg_Username = ''bob'', Reg_Email = ''bob@x.com'',
                   Reg_Password = ''hunter22'', Reg_RoleID = 0\<rparr>"

definition ann_row :: User where
  "ann_row = \<lparr>User_ID = 1, User_Username = ''bob@x.com'', User_Email = ''ann@x.com'',
               User_Password = ''$2a$10$annpass1'', User_IsActive = True, User_RoleID = 1,
               User_Role = zero_Role, User_LastLogin = None\<rparr>"

definition collision_db :: DB where
  "collision_db = \<lparr>users = [ann_row, bob_row], roles = [staff_role], user_seq = 2,
                    faults = (\<lambda>site. None)\<rparr>"

section \<open>The handler chain and the two gates: basic facts\<close>

lemma RBAC_permit:
  "Get c ''role'' = Some (AnyString r) \<Longrightarrow> r \<noteq> [] \<Longrightarrow> r \<in> set allowedRoles
   \<Longrightarrow> RBACMiddleware allowedRoles c = c"
  by (simp add: RBACMiddleware_def slices_Contains_def)

lemma RBAC_not_member:
  "Get c ''role'' = Some (AnyString r) \<Longrightarrow> r \<noteq> [] \<Longrightarrow> r \<notin> set allowedRoles
   \<Longrightarrow> RBACMiddleware allowedRoles c =
         Abort (SendErrorResponse c 403
           ''Access Denied: You do not have the required role for this resource.'')"
  by (simp add: RBACMiddleware_def slices_Contains_def)

lemma RBAC_empty:
  "Get c ''role'' = Some (AnyString []) 
   \<Longrightarrow> RBACMiddleware allowedRoles c =
         Abort (SendErrorResponse c 403 ''Access Denied: User role is empty.'')"
  by (simp add: RBACMiddleware_def)

lemma RBAC_absent:
  "Get c ''role'' = None
   \<Longrightarrow> RBACMiddleware allowedRoles c =
         Abort (SendErrorResponse c 403
           ''Access Denied: User role not found in context. Ensure AuthMiddleware runs first.'')"
  by (simp add: RBACMiddleware_def)

lemma RBAC_not_string:
  "Get c ''role'' = Some v \<Longrightarrow> \<forall>r. v \<noteq> AnyString r
   \<Longrightarrow> RBACMiddleware allowedRoles c =
         Abort (SendErrorResponse c 500
           ''Server Error: User role in context is not of expected type.'')"
  by (cases v) (auto simp add: RBACMiddleware_def)

lemma Aborted_Abort [simp]: "Aborted (Abort c)"
  by (simp add: Abort_def)

lemma run_handlers_aborts:
  "h c = Abort c' \<Longrightarrow> run_handlers (h # hs) c = Abort c'"
  by simp

lemma run_handlers_continues:
  "h c = c' \<Longrightarrow> \<not> Aborted c' \<Longrightarrow> run_handlers (h # hs) c = run_handlers hs c'"
  by simp

lemma strings_Split_nonempty: "strings_Split s sep \<noteq> []"
  by (induction s) (auto split: list.splits)

lemma strings_Split_no_sep: "sep \<notin> set a \<Longrightarrow> strings_Split a sep = [a]"
  by (induction a) auto

lemma strings_Split_append:
  "sep \<notin> set a \<Longrightarrow> strings_Split (a @ sep # b) sep = a # strings_Split b sep"
  by (induction a) (auto split: list.splits)

lemma strings_Split_two:
  "sep \<notin> set a \<Longrightarrow> sep \<notin> set b \<Longrightarrow> strings_Split (a @ sep # b) sep = [a, b]"
  by (simp add: strings_Split_append strings_Split_no_sep)

lemma strings_Split_hd:
  "strings_Split s sep = p # ps \<Longrightarrow> sep \<notin> set p \<and> (ps = [] \<longrightarrow> s = p) \<and> (ps \<noteq> [] \<longrightarrow> s = p @ sep # drop (Suc (length p)) s \<and> strings_Split (drop (Suc (length p)) s) sep = ps)"
proof (induction s arbitrary: p ps)
  case Nil
  then show ?case by simp
next
  case (Cons x xs)
  show ?case
  proof (cases "x = sep")
    case True
    with Cons.prems show ?thesis using strings_Split_nonempty [of xs sep] by auto
  next
    case False
    obtain q qs where q: "strings_Split xs sep = q # qs"
      using strings_Split_nonempty [of xs sep] by (cases "strings_Split xs sep") auto
    with False Cons.prems have p: "p = x # q" "ps = qs" by auto
    from Cons.IH [OF q] p False show ?thesis by auto
  qed
qed

lemma strings_Split_two_conv:
  assumes "strings_Split s sep = [a, b]"
  shows "s = a @ sep # b \<and> sep \<notin> set a \<and> sep \<notin> set b"
proof -
  from strings_Split_hd [OF assms]
  have a: "sep \<notin> set a" and s: "s = a @ sep # drop (Suc (length a)) s"
    and r: "strings_Split (drop (Suc (length a)) s) sep = [b]" by auto
  from strings_Split_hd [OF r] have "sep \<notin> set b" "drop (Suc (length a)) s = b" by auto
  with a s show ?thesis by simp
qed

lemma length_strings_Split_2:
  "length (strings_Split s sep) = 2 \<longleftrightarrow> (\<exists>a b. s = a @ sep # b \<and> sep \<notin> set a \<and> sep \<notin> set b)"
proof
  assume "length (strings_Split s sep) = 2"
  then obtain a b where "strings_Split s sep = [a, b]"
    by (cases "strings_Split s sep"; cases "tl (strings_Split s sep)") auto
  from strings_Split_two_conv [OF this] show "\<exists>a b. s = a @ sep # b \<and> sep \<notin> set a \<and> sep \<notin> set b"
    by blast
next
  assume "\<exists>a b. s = a @ sep # b \<and> sep \<notin> set a \<and> sep \<notin> set b"
  then show "length (strings_Split s sep) = 2" by (auto simp: strings_Split_two)
qed

lemma TokenCodec_parse_Valid:
  "TokenCodec_parse codec tokenString kf now = Inr token \<Longrightarrow> Valid token"
  by (auto simp: TokenCodec_parse_def split: sum.splits option.splits list.splits)

lemma AuthMiddleware_accepts:
  assumes "GetHeader c ''Authorization'' = scheme @ CHR '' '' # tokenString"
    and "CHR '' '' \<notin> set scheme" and "CHR '' '' \<notin> set tokenString"
    and "strings_EqualFold scheme ''bearer''"
    and "jwt_ParseWithClaims lib tokenString (keyFunc jwtSecret) now = Inr token"
    and "Valid token"
  shows "AuthMiddleware lib jwtSecret now c = identity_context (Token_Claims token) c"
  using assms
  by (simp add: AuthMiddleware_def strings_Split_two identity_context_def Let_def)

lemma AuthMiddleware_rejects_parse:
  assumes "GetHeader c ''Authorization'' = scheme @ CHR '' '' # tokenString"
    and "CHR '' '' \<notin> set scheme" and "CHR '' '' \<notin> set tokenString"
    and "strings_EqualFold scheme ''bearer''"
    and "jwt_ParseWithClaims lib tokenString (keyFunc jwtSecret) now = Inl err"
  shows "AuthMiddleware lib jwtSecret now c = Abort (SendErrorResponse c 401 (errMsg err))"
  using assms
  by (simp add: AuthMiddleware_def strings_Split_two Let_def)

lemma AuthMiddleware_rejects_invalid:
  assumes "GetHeader c ''Authorization'' = scheme @ CHR '' '' # tokenString"
    and "CHR '' '' \<notin> set scheme" and "CHR '' '' \<notin> set tokenString"
    and "strings_EqualFold scheme ''bearer''"
    and "jwt_ParseWithClaims lib tokenString (keyFunc jwtSecret) now = Inr token"
    and "\<not> Valid token"
  shows "AuthMiddleware lib jwtSecret now c = Abort (SendErrorResponse c 401 ''Token is invalid.'')"
  using assms
  by (simp add: AuthMiddleware_def strings_Split_two Let_def)

lemma AuthMiddleware_rejects_missing:
  "GetHeader c ''Authorization'' = '''' \<Longrightarrow>
   AuthMiddleware lib jwtSecret now c
     = Abort (SendErrorResponse c 401 ''Authorization header is required'')"
  by (simp add: AuthMiddleware_def)

lemma AuthMiddleware_rejects_format:
  assumes "\<not> (\<exists>scheme tokenString. GetHeader c ''Authorization'' = scheme @ CHR '' '' # tokenString
              \<and> CHR '' '' \<notin> set scheme \<and> CHR '' '' \<notin> set tokenString
              \<and> strings_EqualFold scheme ''bearer'')"
    and "GetHeader c ''Authorization'' \<noteq> ''''"
  shows "AuthMiddleware lib jwtSecret now c
     = Abort (SendErrorResponse c 401 ''Authorization header format must be Bearer {token}'')"
proof (cases "length (strings_Split (GetHeader c ''Authorization'') CHR '' '') = 2")
  case False
  with assms(2) show ?thesis by (simp add: AuthMiddleware_def Let_def)
next
  case True
  then obtain a b where ab: "strings_Split (GetHeader c ''Authorization'') CHR '' '' = [a, b]"
    by (cases "strings_Split (GetHeader c ''Authorization'') CHR '' ''";
        cases "tl (strings_Split (GetHeader c ''Authorization'') CHR '' '')") auto
  from strings_Split_two_conv [OF ab] assms(1) have "\<not> strings_EqualFold a ''bearer''" by blast
  with ab assms(2) show ?thesis by (simp add: AuthMiddleware_def Let_def)
qed

lemma Get_identity_context_role: "Get (identity_context claims c) ''role'' = Some (AnyString (Claims_Role claims))"
  by (simp add: identity_context_def Get_def Set_def)

lemma Aborted_identity_context: "Aborted (identity_context claims c) = Aborted c"
  by (simp add: identity_context_def Set_def)

section \<open>Claims about the Authorization Gate\<close>

text \<open>
  C10. The Authorization Gate denies by default. The handlers after it run only when the
  context holds a role that is a string, is not empty and is in the list of allowed
  roles. For every other context the chain ends there with an error response, whatever
  the later handlers are: status 403 when the role is missing or empty, status 500 when
  the role is not a string; the status is never anything but 403 or 500.
\<close>

theorem RBACMiddleware_deny_by_default:
  "(\<forall>r. Get c ''role'' = Some (AnyString r) \<and> r \<noteq> '''' \<and> r \<in> set allowedRoles \<and> \<not> Aborted c
        \<longrightarrow> run_handlers (RBACMiddleware allowedRoles # rest) c = run_handlers rest c)
   \<and> (\<not> (\<exists>r. Get c ''role'' = Some (AnyString r) \<and> r \<noteq> '''' \<and> r \<in> set allowedRoles)
        \<longrightarrow> (\<exists>code msg. run_handlers (RBACMiddleware allowedRoles # rest) c
                            = Abort (SendErrorResponse c code msg)
                        \<and> (code = 403 \<or> code = 500)))
   \<and> (Get c ''role'' = None \<or> Get c ''role'' = Some (AnyString '''')
        \<longrightarrow> (\<exists>msg. run_handlers (RBACMiddleware allowedRoles # rest) c
                       = Abort (SendErrorResponse c 403 msg)))
   \<and> (\<forall>v. Get c ''role'' = Some v \<and> (\<forall>r. v \<noteq> AnyString r)
        \<longrightarrow> (\<exists>msg. run_handlers (RBACMiddleware allowedRoles # rest) c
                       = Abort (SendErrorResponse c 500 msg)))"
proof (intro conjI allI impI)
  fix r
  assume "Get c ''role'' = Some (AnyString r) \<and> r \<noteq> '''' \<and> r \<in> set allowedRoles \<and> \<not> Aborted c"
  then show "run_handlers (RBACMiddleware allowedRoles # rest) c = run_handlers rest c"
    using RBAC_permit [of c r allowedRoles] by (simp del: run_handlers.simps add: run_handlers_continues)
next
  assume deny: "\<not> (\<exists>r. Get c ''role'' = Some (AnyString r) \<and> r \<noteq> '''' \<and> r \<in> set allowedRoles)"
  show "\<exists>code msg. run_handlers (RBACMiddleware allowedRoles # rest) c
                      = Abort (SendErrorResponse c code msg) \<and> (code = 403 \<or> code = 500)"
  proof (cases "Get c ''role''")
    case None
    then show ?thesis using RBAC_absent [of c allowedRoles] run_handlers_aborts by fastforce
  next
    case (Some v)
    show ?thesis
    proof (cases v)
      case (AnyString r)
      show ?thesis
      proof (cases "r = []")
        case True
        with Some AnyString show ?thesis
          using RBAC_empty [of c allowedRoles] run_handlers_aborts by fastforce
      next
        case False
        with Some AnyString deny have "r \<notin> set allowedRoles" by simp
        with Some AnyString False show ?thesis
          using RBAC_not_member [of c r allowedRoles] run_handlers_aborts by fastforce
      qed
    next
      case (AnyUint n)
      with Some show ?thesis
        using RBAC_not_string [of c v allowedRoles] run_handlers_aborts by fastforce
    next
      case (AnyOther x)
      with Some show ?thesis
        using RBAC_not_string [of c v allowedRoles] run_handlers_aborts by fastforce
    qed
  qed
next
  assume "Get c ''role'' = None \<or> Get c ''role'' = Some (AnyString '''')"
  then show "\<exists>msg. run_handlers (RBACMiddleware allowedRoles # rest) c
                      = Abort (SendErrorResponse c 403 msg)"
    using RBAC_absent [of c allowedRoles] RBAC_empty [of c allowedRoles] run_handlers_aborts
    by fastforce
next
  fix v
  assume "Get c ''role'' = Some v \<and> (\<forall>r. v \<noteq> AnyString r)"
  then show "\<exists>msg. run_handlers (RBACMiddleware allowedRoles # rest) c
                      = Abort (SendErrorResponse c 500 msg)"
    using RBAC_not_string [of c v allowedRoles] run_handlers_aborts by fastforce
qed

theorem RBACMiddleware_deny_by_default_witness:
  "run_handlers [RBACMiddleware hrRoutes, employee_data]
       (Set ''role'' (AnyString ''hr'') (new_Context (\<lambda>k. None)))
     = employee_data (Set ''role'' (AnyString ''hr'') (new_Context (\<lambda>k. None)))
   \<and> (\<exists>code msg. run_handlers [RBACMiddleware hrRoutes, employee_data]
                     (Set ''role'' (AnyString ''staff'') (new_Context (\<lambda>k. None)))
                   = Abort (SendErrorResponse
                       (Set ''role'' (AnyString ''staff'') (new_Context (\<lambda>k. None))) code msg)
                  \<and> (code = 403 \<or> code = 500))
   \<and> (\<exists>msg. run_handlers [RBACMiddleware hrRoutes, employee_data] (new_Context (\<lambda>k. None))
              = Abort (SendErrorResponse (new_Context (\<lambda>k. None)) 403 msg))
   \<and> (\<exists>msg. run_handlers [RBACMiddleware hrRoutes, employee_data]
                (Set ''role'' (AnyUint 7) (new_Context (\<lambda>k. None)))
              = Abort (SendErrorResponse (Set ''role'' (AnyUint 7) (new_Context (\<lambda>k. None))) 500 msg))"
proof -
  let ?hr = "Set ''role'' (AnyString ''hr'') (new_Context (\<lambda>k. None))"
  let ?staff = "Set ''role'' (AnyString ''staff'') (new_Context (\<lambda>k. None))"
  let ?uint = "Set ''role'' (AnyUint 7) (new_Context (\<lambda>k. None))"
  have hr: "Get ?hr ''role'' = Some (AnyString ''hr'') \<and> ''hr'' \<noteq> '''' \<and> ''hr'' \<in> set hrRoutes
            \<and> \<not> Aborted ?hr"
    by (simp add: Get_def Set_def new_Context_def hrRoutes_def)
  have staff: "\<not> (\<exists>r. Get ?staff ''role'' = Some (AnyString r) \<and> r \<noteq> '''' \<and> r \<in> set hrRoutes)"
    by (simp add: Get_def Set_def new_Context_def hrRoutes_def)
  have absent: "Get (new_Context (\<lambda>k. None)) ''role'' = None"
    by (simp add: Get_def new_Context_def)
  have uint: "Get ?uint ''role'' = Some (AnyUint 7) \<and> (\<forall>r. AnyUint 7 \<noteq> AnyString r)"
    by (simp add: Get_def Set_def new_Context_def)
  have 1: "run_handlers [RBACMiddleware hrRoutes, employee_data] ?hr = employee_data ?hr"
    using RBACMiddleware_deny_by_default [of ?hr hrRoutes "[employee_data]"] hr
    by (simp add: employee_data_def SendSuccessResponse_def)
  have 2: "\<exists>code msg. run_handlers [RBACMiddleware hrRoutes, employee_data] ?staff
                   = Abort (SendErrorResponse ?staff code msg) \<and> (code = 403 \<or> code = 500)"
    using RBACMiddleware_deny_by_default [of ?staff hrRoutes "[employee_data]"] staff by blast
  have 3: "\<exists>msg. run_handlers [RBACMiddleware hrRoutes, employee_data] (new_Context (\<lambda>k. None))
              = Abort (SendErrorResponse (new_Context (\<lambda>k. None)) 403 msg)"
    using RBACMiddleware_deny_by_default [of "new_Context (\<lambda>k. None)" hrRoutes "[employee_data]"]
      absent by blast
  have 4: "\<exists>msg. run_handlers [RBACMiddleware hrRoutes, employee_data] ?uint
              = Abort (SendErrorResponse ?uint 500 msg)"
    using RBACMiddleware_deny_by_default [of ?uint hrRoutes "[employee_data]"] uint by blast
  from 1 2 3 4 show ?thesis by blast
qed

lemma EqualFold_Bearer: "strings_EqualFold ''Bearer'' ''bearer''"
  by code_simp

lemma bearer_request_header:
  "GetHeader (bearer_request tokenString) ''Authorization'' = ''Bearer'' @ CHR '' '' # tokenString"
  by (simp add: bearer_request_def new_Context_def GetHeader_def)

lemma bearer_request_fresh: "\<not> Aborted (bearer_request tokenString)"
  by (simp add: bearer_request_def new_Context_def)

lemma stub_parse_demo:
  "jwt_ParseWithClaims (stub_lib ''secret'' [(''tok'', demo_claims r)]) ''tok''
      (keyFunc (JWTSecret demo_cfg)) (1500 * Second)
    = Inr \<lparr>Method = SigningMethodHMAC ''HS256'', Token_Claims = demo_claims r, Valid = True\<rparr>"
  by (simp add: TokenCodec_parse_def stub_lib_def stub_codec_def keyFunc_def jwt_Validate_def
      demo_claims_def demo_cfg_def Second_def)

lemma demo_token_valid:
  "Valid \<lparr>Method = SigningMethodHMAC ''HS256'', Token_Claims = demo_claims r, Valid = True\<rparr>"
  by simp

lemma route_groups_no_empty: "\<forall>g \<in> set route_groups. '''' \<notin> set g"
  by (simp add: route_groups_def adminRoutes_def hrRoutes_def managerRoutes_def
      staffAccessibleRoutes_def)

lemma demo_claims_role: "Claims_Role (demo_claims r) = r"
  by (simp add: demo_claims_def)

text \<open>
  C1. A request that passed the Authentication Gate reaches the handlers of a route group
  exactly when the role of its token is in the group's list of allowed roles, and is
  answered 403 otherwise. The lists of the four route groups hold no empty string, which
  is what the equivalence needs; a token with the empty role is answered 403 under any
  list. On the HR group, whose list is hr, admin, god-admin, the role staff is answered
  403 and the role hr reaches the handler.
\<close>

theorem authorization_gate_allow_list:
  assumes hdr: "GetHeader c ''Authorization'' = scheme @ CHR '' '' # tokenString"
    and scheme: "CHR '' '' \<notin> set scheme" "strings_EqualFold scheme ''bearer''"
    and tok: "CHR '' '' \<notin> set tokenString"
    and parse: "jwt_ParseWithClaims lib tokenString (keyFunc (JWTSecret cfg)) now = Inr token"
    and valid: "Valid token"
    and fresh: "\<not> Aborted c"
  shows "('''' \<notin> set allowedRoles \<longrightarrow>
           (Claims_Role (Token_Claims token) \<in> set allowedRoles \<longrightarrow>
              protected lib db cfg now (RBACMiddleware allowedRoles # rest) c
                = run_handlers rest (identity_context (Token_Claims token) c))
         \<and> (Claims_Role (Token_Claims token) \<notin> set allowedRoles \<longrightarrow>
              (\<exists>msg. protected lib db cfg now (RBACMiddleware allowedRoles # rest) c
                 = Abort (SendErrorResponse (identity_context (Token_Claims token) c) 403 msg)))
         \<and> (Aborted (protected lib db cfg now [RBACMiddleware allowedRoles] c)
              \<longleftrightarrow> Claims_Role (Token_Claims token) \<notin> set allowedRoles))
       \<and> (Claims_Role (Token_Claims token) = '''' \<longrightarrow>
            (\<exists>msg. protected lib db cfg now (RBACMiddleware allowedRoles # rest) c
               = Abort (SendErrorResponse (identity_context (Token_Claims token) c) 403 msg)))
       \<and> (\<forall>g \<in> set route_groups. '''' \<notin> set g)
       \<and> (Claims_Role (Token_Claims token) = ''staff'' \<longrightarrow>
            (\<exists>msg. hr_employee_data lib db cfg now c
               = Abort (SendErrorResponse (identity_context (Token_Claims token) c) 403 msg)))
       \<and> (Claims_Role (Token_Claims token) = ''hr'' \<longrightarrow>
            hr_employee_data lib db cfg now c
               = employee_data (identity_context (Token_Claims token) c))"
proof -
  let ?claims = "Token_Claims token"
  let ?c = "identity_context ?claims c"
  have auth: "AuthMiddleware lib (JWTSecret cfg) now c = ?c"
    using AuthMiddleware_accepts [OF hdr scheme(1) tok scheme(2) parse valid] .
  have live: "\<not> Aborted ?c"
    using fresh by (simp add: Aborted_identity_context)
  have role: "Get ?c ''role'' = Some (AnyString (Claims_Role ?claims))"
    by (rule Get_identity_context_role)
  have chain: "protected lib db cfg now (h # hs) c = run_handlers (h # hs) ?c" for h hs
    unfolding protected_def using auth live by (simp del: AuthMiddleware_def)
  have permit: "run_handlers (RBACMiddleware roles # hs) ?c = run_handlers hs ?c"
    if "Claims_Role ?claims \<in> set roles" "Claims_Role ?claims \<noteq> ''''" for roles hs
    using RBAC_permit [OF role that(2) that(1)] live by simp
  have deny: "\<exists>msg. run_handlers (RBACMiddleware roles # hs) ?c
                      = Abort (SendErrorResponse ?c 403 msg)"
    if "Claims_Role ?claims \<notin> set roles \<or> Claims_Role ?claims = ''''" for roles hs
  proof (cases "Claims_Role ?claims = ''''")
    case True
    then show ?thesis using RBAC_empty [of ?c roles] role run_handlers_aborts by fastforce
  next
    case False
    with that have "Claims_Role ?claims \<notin> set roles" by simp
    from RBAC_not_member [OF role False this] show ?thesis
      using run_handlers_aborts by fastforce
  qed
  have a: "'''' \<notin> set allowedRoles \<longrightarrow>
           (Claims_Role ?claims \<in> set allowedRoles \<longrightarrow>
              protected lib db cfg now (RBACMiddleware allowedRoles # rest) c
                = run_handlers rest ?c)
         \<and> (Claims_Role ?claims \<notin> set allowedRoles \<longrightarrow>
              (\<exists>msg. protected lib db cfg now (RBACMiddleware allowedRoles # rest) c
                 = Abort (SendErrorResponse ?c 403 msg)))
         \<and> (Aborted (protected lib db cfg now [RBACMiddleware allowedRoles] c)
              \<longleftrightarrow> Claims_Role ?claims \<notin> set allowedRoles)"
  proof (intro impI conjI)
    assume ne: "'''' \<notin> set allowedRoles"
    show "protected lib db cfg now (RBACMiddleware allowedRoles # rest) c = run_handlers rest ?c"
      if "Claims_Role ?claims \<in> set allowedRoles"
      using that ne permit [of allowedRoles rest] chain by force
    show "\<exists>msg. protected lib db cfg now (RBACMiddleware allowedRoles # rest) c
                 = Abort (SendErrorResponse ?c 403 msg)"
      if "Claims_Role ?claims \<notin> set allowedRoles"
      using that deny [of allowedRoles rest] chain by simp
    show "Aborted (protected lib db cfg now [RBACMiddleware allowedRoles] c)
              \<longleftrightarrow> Claims_Role ?claims \<notin> set allowedRoles"
    proof (cases "Claims_Role ?claims \<in> set allowedRoles")
      case True
      with ne have "protected lib db cfg now [RBACMiddleware allowedRoles] c = ?c"
        using permit [of allowedRoles "[]"] chain by force
      with True live show ?thesis by simp
    next
      case False
      then obtain msg where "protected lib db cfg now [RBACMiddleware allowedRoles] c
                 = Abort (SendErrorResponse ?c 403 msg)"
        using deny [of allowedRoles "[]"] chain by auto
      with False show ?thesis by simp
    qed
  qed
  have b: "Claims_Role ?claims = '''' \<longrightarrow>
            (\<exists>msg. protected lib db cfg now (RBACMiddleware allowedRoles # rest) c
               = Abort (SendErrorResponse ?c 403 msg))"
    using deny [of allowedRoles rest] chain by simp
  have d: "Claims_Role ?claims = ''staff'' \<longrightarrow>
            (\<exists>msg. hr_employee_data lib db cfg now c = Abort (SendErrorResponse ?c 403 msg))"
  proof
    assume "Claims_Role ?claims = ''staff''"
    then have "Claims_Role ?claims \<notin> set hrRoutes" by (simp add: hrRoutes_def)
    then show "\<exists>msg. hr_employee_data lib db cfg now c = Abort (SendErrorResponse ?c 403 msg)"
      unfolding hr_employee_data_def using deny [of hrRoutes "[employee_data]"] chain by simp
  qed
  have e: "Claims_Role ?claims = ''hr'' \<longrightarrow> hr_employee_data lib db cfg now c = employee_data ?c"
  proof
    assume hr: "Claims_Role ?claims = ''hr''"
    then have "Claims_Role ?claims \<in> set hrRoutes" "Claims_Role ?claims \<noteq> ''''"
      by (simp_all add: hrRoutes_def)
    from permit [OF this, of "[employee_data]"]
    show "hr_employee_data lib db cfg now c = employee_data ?c"
      unfolding hr_employee_data_def using chain by (simp add: Let_def)
  qed
  from a b route_groups_no_empty d e show ?thesis by blast
qed

theorem authorization_gate_allow_list_witness:
  "(\<exists>msg. hr_employee_data (stub_lib ''secret'' [(''tok'', demo_claims ''staff'')]) empty_db demo_cfg
             (1500 * Second) (bearer_request ''tok'')
           = Abort (SendErrorResponse
               (identity_context (demo_claims ''staff'') (bearer_request ''tok'')) 403 msg))
   \<and> hr_employee_data (stub_lib ''secret'' [(''tok'', demo_claims ''hr'')]) empty_db demo_cfg
             (1500 * Second) (bearer_request ''tok'')
       = employee_data (identity_context (demo_claims ''hr'') (bearer_request ''tok''))
   \<and> \<not> Aborted (protected (stub_lib ''secret'' [(''tok'', demo_claims ''hr'')]) empty_db demo_cfg
             (1500 * Second) [RBACMiddleware hrRoutes] (bearer_request ''tok''))"
proof -
  have sp: "CHR '' '' \<notin> set ''Bearer''" "CHR '' '' \<notin> set ''tok''" by simp_all
  have hr: "'''' \<notin> set hrRoutes" "''hr'' \<in> set hrRoutes" by (simp_all add: hrRoutes_def)
  from authorization_gate_allow_list [OF bearer_request_header sp(1) EqualFold_Bearer sp(2)
      stub_parse_demo [of "''staff''"] demo_token_valid bearer_request_fresh, where allowedRoles = hrRoutes and rest = "[]" and db = empty_db]
  have 1: "\<exists>msg. hr_employee_data (stub_lib ''secret'' [(''tok'', demo_claims ''staff'')]) empty_db
             demo_cfg (1500 * Second) (bearer_request ''tok'')
           = Abort (SendErrorResponse
               (identity_context (demo_claims ''staff'') (bearer_request ''tok'')) 403 msg)"
    by (simp add: demo_claims_role)
  from authorization_gate_allow_list [OF bearer_request_header sp(1) EqualFold_Bearer sp(2)
      stub_parse_demo [of "''hr''"] demo_token_valid bearer_request_fresh, where allowedRoles = hrRoutes and rest = "[]" and db = empty_db] hr
  have 2: "hr_employee_data (stub_lib ''secret'' [(''tok'', demo_claims ''hr'')]) empty_db demo_cfg
             (1500 * Second) (bearer_request ''tok'')
       = employee_data (identity_context (demo_claims ''hr'') (bearer_request ''tok''))"
    and 3: "\<not> Aborted (protected (stub_lib ''secret'' [(''tok'', demo_claims ''hr'')]) empty_db
             demo_cfg (1500 * Second) [RBACMiddleware hrRoutes] (bearer_request ''tok''))"
    by (simp_all add: demo_claims_role Aborted_identity_context bearer_request_fresh)
  from 1 2 3 show ?thesis by blast
qed

lemma protected_aborts:
  "AuthMiddleware lib (JWTSecret cfg) now c = Abort c' \<Longrightarrow>
   protected lib db cfg now handlers c = Abort c'"
  unfolding protected_def by (rule run_handlers_aborts)

lemma errMsg_cases:
  "(errors_Is err ErrTokenMalformed \<longrightarrow> errMsg err = ''Token is malformed.'')
   \<and> (\<not> errors_Is err ErrTokenMalformed \<and> errors_Is err ErrTokenExpired
        \<longrightarrow> errMsg err = ''Token has expired.'')
   \<and> (\<not> errors_Is err ErrTokenMalformed \<and> \<not> errors_Is err ErrTokenExpired
        \<and> errors_Is err ErrTokenNotValidYet
        \<longrightarrow> errMsg err = ''Token not yet valid.'')
   \<and> (\<not> errors_Is err ErrTokenMalformed \<and> \<not> errors_Is err ErrTokenExpired
        \<and> \<not> errors_Is err ErrTokenNotValidYet \<and> errors_Is err ErrSignatureInvalid
        \<longrightarrow> errMsg err = ''Token signature is invalid or signing method is not supported.'')"
  by (simp add: errMsg_def)

lemma errMsg_distinct:
  "distinct [''Token is malformed.'', ''Token has expired.'', ''Token not yet valid.'',
             ''Token signature is invalid or signing method is not supported.'']"
  by simp

section \<open>Claims about the Authentication Gate\<close>

text \<open>
  C3. On a protected route the Authentication Gate answers 401 and ends the chain,
  whatever handlers follow, in three cases: the Authorization header is missing; the
  header is not two parts separated by one space of which the first equals bearer up to
  case; the parse of the token fails. In the last case the message is chosen by the kind
  of the failure (malformed, expired, not yet valid, bad signature, in this order of
  precedence), the four messages differ from one another, and the status is 401 for all.
  A token that the library returns without an error but not marked valid is answered
  401 as well.
\<close>

theorem authentication_gate_rejects:
  "(GetHeader c ''Authorization'' = '''' \<longrightarrow>
      protected lib db cfg now handlers c
        = Abort (SendErrorResponse c 401 ''Authorization header is required''))
   \<and> (GetHeader c ''Authorization'' \<noteq> ''''
        \<and> \<not> (\<exists>scheme tokenString.
                 GetHeader c ''Authorization'' = scheme @ CHR '' '' # tokenString
                 \<and> CHR '' '' \<notin> set scheme \<and> CHR '' '' \<notin> set tokenString
                 \<and> strings_EqualFold scheme ''bearer'') \<longrightarrow>
      protected lib db cfg now handlers c
        = Abort (SendErrorResponse c 401 ''Authorization header format must be Bearer {token}''))
   \<and> (\<forall>scheme tokenString err.
         GetHeader c ''Authorization'' = scheme @ CHR '' '' # tokenString
         \<and> CHR '' '' \<notin> set scheme \<and> CHR '' '' \<notin> set tokenString
         \<and> strings_EqualFold scheme ''bearer''
         \<and> jwt_ParseWithClaims lib tokenString (keyFunc (JWTSecret cfg)) now = Inl err \<longrightarrow>
      protected lib db cfg now handlers c = Abort (SendErrorResponse c 401 (errMsg err))
      \<and> (errors_Is err ErrTokenMalformed \<longrightarrow> errMsg err = ''Token is malformed.'')
      \<and> (\<not> errors_Is err ErrTokenMalformed \<and> errors_Is err ErrTokenExpired
           \<longrightarrow> errMsg err = ''Token has expired.'')
      \<and> (\<not> errors_Is err ErrTokenMalformed \<and> \<not> errors_Is err ErrTokenExpired
           \<and> errors_Is err ErrTokenNotValidYet
           \<longrightarrow> errMsg err = ''Token not yet valid.'')
      \<and> (\<not> errors_Is err ErrTokenMalformed \<and> \<not> errors_Is err ErrTokenExpired
           \<and> \<not> errors_Is err ErrTokenNotValidYet \<and> errors_Is err ErrSignatureInvalid
           \<longrightarrow> errMsg err = ''Token signature is invalid or signing method is not supported.''))
   \<and> (\<forall>scheme tokenString token.
         GetHeader c ''Authorization'' = scheme @ CHR '' '' # tokenString
         \<and> CHR '' '' \<notin> set scheme \<and> CHR '' '' \<notin> set tokenString
         \<and> strings_EqualFold scheme ''bearer''
         \<and> jwt_ParseWithClaims lib tokenString (keyFunc (JWTSecret cfg)) now = Inr token
         \<and> \<not> Valid token \<longrightarrow>
      protected lib db cfg now handlers c = Abort (SendErrorResponse c 401 ''Token is invalid.''))
   \<and> distinct [''Token is malformed.'', ''Token has expired.'', ''Token not yet valid.'',
                ''Token signature is invalid or signing method is not supported.'']"
proof (intro conjI impI allI)
  assume "GetHeader c ''Authorization'' = ''''"
  then show "protected lib db cfg now handlers c
        = Abort (SendErrorResponse c 401 ''Authorization header is required'')"
    by (intro protected_aborts AuthMiddleware_rejects_missing)
next
  assume "GetHeader c ''Authorization'' \<noteq> ''''
        \<and> \<not> (\<exists>scheme tokenString.
                 GetHeader c ''Authorization'' = scheme @ CHR '' '' # tokenString
                 \<and> CHR '' '' \<notin> set scheme \<and> CHR '' '' \<notin> set tokenString
                 \<and> strings_EqualFold scheme ''bearer'')"
  then show "protected lib db cfg now handlers c
        = Abort (SendErrorResponse c 401 ''Authorization header format must be Bearer {token}'')"
    by (intro protected_aborts AuthMiddleware_rejects_format) simp_all
next
  fix scheme tokenString err
  assume h: "GetHeader c ''Authorization'' = scheme @ CHR '' '' # tokenString
         \<and> CHR '' '' \<notin> set scheme \<and> CHR '' '' \<notin> set tokenString
         \<and> strings_EqualFold scheme ''bearer''
         \<and> jwt_ParseWithClaims lib tokenString (keyFunc (JWTSecret cfg)) now = Inl err"
  then have "AuthMiddleware lib (JWTSecret cfg) now c = Abort (SendErrorResponse c 401 (errMsg err))"
    by (intro AuthMiddleware_rejects_parse [of c scheme tokenString]) simp_all
  then show "protected lib db cfg now handlers c = Abort (SendErrorResponse c 401 (errMsg err))"
    by (rule protected_aborts)
  show "errors_Is err ErrTokenMalformed \<Longrightarrow> errMsg err = ''Token is malformed.''"
    using errMsg_cases [of err] by blast
  show "\<not> errors_Is err ErrTokenMalformed \<and> errors_Is err ErrTokenExpired
        \<Longrightarrow> errMsg err = ''Token has expired.''"
    using errMsg_cases [of err] by blast
  show "\<not> errors_Is err ErrTokenMalformed \<and> \<not> errors_Is err ErrTokenExpired
        \<and> errors_Is err ErrTokenNotValidYet \<Longrightarrow> errMsg err = ''Token not yet valid.''"
    using errMsg_cases [of err] by blast
  show "\<not> errors_Is err ErrTokenMalformed \<and> \<not> errors_Is err ErrTokenExpired
        \<and> \<not> errors_Is err ErrTokenNotValidYet \<and> errors_Is err ErrSignatureInvalid
        \<Longrightarrow> errMsg err = ''Token signature is invalid or signing method is not supported.''"
    using errMsg_cases [of err] by blast
next
  fix scheme tokenString token
  assume "GetHeader c ''Authorization'' = scheme @ CHR '' '' # tokenString
         \<and> CHR '' '' \<notin> set scheme \<and> CHR '' '' \<notin> set tokenString
         \<and> strings_EqualFold scheme ''bearer''
         \<and> jwt_ParseWithClaims lib tokenString (keyFunc (JWTSecret cfg)) now = Inr token
         \<and> \<not> Valid token"
  then have "AuthMiddleware lib (JWTSecret cfg) now c
               = Abort (SendErrorResponse c 401 ''Token is invalid.'')"
    using AuthMiddleware_rejects_invalid [of c scheme tokenString lib "JWTSecret cfg" now token]
    by blast
  then show "protected lib db cfg now handlers c
               = Abort (SendErrorResponse c 401 ''Token is invalid.'')"
    by (rule protected_aborts)
next
  show "distinct [''Token is malformed.'', ''Token has expired.'', ''Token not yet valid.'',
                ''Token signature is invalid or signing method is not supported.'']"
    by (rule errMsg_distinct)
qed

theorem authentication_gate_rejects_witness:
  "protected (stub_lib ''secret'' []) empty_db demo_cfg (1500 * Second) [employee_data]
       (new_Context (\<lambda>k. None))
     = Abort (SendErrorResponse (new_Context (\<lambda>k. None)) 401 ''Authorization header is required'')
   \<and> protected (stub_lib ''secret'' []) empty_db demo_cfg (1500 * Second) [employee_data]
       (new_Context (\<lambda>k. if k = ''Authorization'' then Some ''Bearer  tok'' else None))
     = Abort (SendErrorResponse
         (new_Context (\<lambda>k. if k = ''Authorization'' then Some ''Bearer  tok'' else None)) 401
         ''Authorization header format must be Bearer {token}'')
   \<and> protected (stub_lib ''secret'' []) empty_db demo_cfg (1500 * Second) [employee_data]
       (bearer_request ''tok'')
     = Abort (SendErrorResponse (bearer_request ''tok'') 401 ''Token is malformed.'')"
proof -
  let ?lib = "stub_lib ''secret'' []"
  let ?none = "new_Context (\<lambda>k. None)"
  let ?two = "new_Context (\<lambda>k. if k = ''Authorization'' then Some ''Bearer  tok'' else None)"
  let ?malformed = "\<lparr>sentinels = [ErrTokenMalformed],
      jwt_text = ''token is malformed: token contains an invalid number of segments''\<rparr>"
  have missing: "GetHeader ?none ''Authorization'' = ''''"
    by (simp add: GetHeader_def new_Context_def)
  have two: "GetHeader ?two ''Authorization'' = ''Bearer  tok''"
    by (simp add: GetHeader_def new_Context_def)
  have "length (strings_Split ''Bearer  tok'' CHR '' '') \<noteq> 2" by simp
  then have shape: "\<not> (\<exists>scheme tokenString.
       ''Bearer  tok'' = scheme @ CHR '' '' # tokenString
       \<and> CHR '' '' \<notin> set scheme \<and> CHR '' '' \<notin> set tokenString
       \<and> strings_EqualFold scheme ''bearer'')"
    unfolding length_strings_Split_2 by blast
  have parse: "jwt_ParseWithClaims ?lib ''tok'' (keyFunc (JWTSecret demo_cfg)) (1500 * Second)
      = Inl ?malformed"
    by (simp add: TokenCodec_parse_def stub_lib_def stub_codec_def)
  have isM: "errors_Is ?malformed ErrTokenMalformed" by (simp add: errors_Is_def)
  have 1: "protected ?lib empty_db demo_cfg (1500 * Second) [employee_data] ?none
     = Abort (SendErrorResponse ?none 401 ''Authorization header is required'')"
    using authentication_gate_rejects [of ?none ?lib empty_db demo_cfg "1500 * Second"
        "[employee_data]"] missing by blast
  have 2: "protected ?lib empty_db demo_cfg (1500 * Second) [employee_data] ?two
     = Abort (SendErrorResponse ?two 401 ''Authorization header format must be Bearer {token}'')"
    using authentication_gate_rejects [of ?two ?lib empty_db demo_cfg "1500 * Second"
        "[employee_data]"] two shape by simp
  note r = authentication_gate_rejects [of "bearer_request ''tok''" ?lib empty_db demo_cfg
      "1500 * Second" "[employee_data]", THEN conjunct2, THEN conjunct2, THEN conjunct1,
      rule_format, of "''Bearer''" "''tok''" ?malformed]
  have 3: "protected ?lib empty_db demo_cfg (1500 * Second) [employee_data] (bearer_request ''tok'')
     = Abort (SendErrorResponse (bearer_request ''tok'') 401 (errMsg ?malformed))
     \<and> errMsg ?malformed = ''Token is malformed.''"
    using r bearer_request_header [of "''tok''"] EqualFold_Bearer parse isM by simp
  from 1 2 3 show ?thesis by simp
qed

lemma db_First_found:
  "faults db site = None \<Longrightarrow> find cond rows = Some row \<Longrightarrow> db_First db site cond rows = Inr row"
  by (simp add: db_First_def)

lemma db_First_not_found:
  "faults db site = None \<Longrightarrow> find cond rows = None \<Longrightarrow>
   db_First db site cond rows = Inl ErrRecordNotFound"
  by (simp add: db_First_def)

lemma db_First_fault:
  "faults db site = Some msg \<Longrightarrow> db_First db site cond rows = Inl (driverError msg)"
  by (simp add: db_First_def)

lemma db_First_cases:
  "(\<exists>msg. db_First db site cond rows = Inl (driverError msg))
   \<or> db_First db site cond rows = Inl ErrRecordNotFound
   \<or> (\<exists>row. db_First db site cond rows = Inr row \<and> find cond rows = Some row)"
  by (simp add: db_First_def split: option.splits)

lemma find_exists: "(\<exists>x \<in> set xs. P x) \<Longrightarrow> \<exists>row. find P xs = Some row \<and> P row"
  by (induction xs) auto

lemma db_Create_cases:
  "(\<exists>err. db_Create db site u = (Inl err, db))
   \<or> (\<exists>newID. db_Create db site u
          = (Inr newID, db\<lparr>users := users db @ [u\<lparr>User_ID := newID, User_Role := zero_Role\<rparr>],
                           user_seq := newID\<rparr>))"
  by (simp add: db_Create_def Let_def split: option.splits)

lemma register_alice:
  "RegisterUser (stub_lib ''secret'' []) seeded_db alice_request
     = (Inr (alice_row\<lparr>User_Role := staff_role\<rparr>), alice_db)"
  by (simp add: RegisterUser_def db_First_def seeded_db_def alice_request_def HashPassword_def
      stub_lib_def resolve_roleID_def staff_role_def db_Create_def preload_Role_def
      alice_row_def alice_db_def zero_Role_def)

lemma register_alice_again:
  "RegisterUser (stub_lib ''secret'' []) alice_db
       \<lparr>Reg_Username = ''alice'', Reg_Email = ''alice2@x.com'', Reg_Password = ''secret2'',
        Reg_RoleID = 0\<rparr>
     = (Inl (errors_New ''username or email already exists''), alice_db)"
  by (simp add: RegisterUser_def db_First_def alice_db_def alice_row_def)

section \<open>Claims about registration\<close>

text \<open>
  C6. A registration whose username is already in the Credential Store, whatever its
  email, and a registration whose email is already there, whatever its username, fails
  and leaves the store as it was. The error is the one for a duplicate identity whenever
  the query for the existing user itself succeeds (otherwise it is the storage error).
\<close>

theorem RegisterUser_duplicate_identity:
  assumes "(\<exists>u \<in> set (users db). User_Username u = Reg_Username req)
           \<or> (\<exists>u \<in> set (users db). User_Email u = Reg_Email req)"
  shows "(\<exists>err. RegisterUser lib db req = (Inl err, db))
       \<and> (faults db RegisterFindExisting = None \<longrightarrow>
            RegisterUser lib db req = (Inl (errors_New ''username or email already exists''), db))"
proof -
  let ?cond = "\<lambda>u. User_Username u = Reg_Username req \<or> User_Email u = Reg_Email req"
  from assms have "\<exists>u \<in> set (users db). ?cond u" by blast
  then obtain row where row: "find ?cond (users db) = Some row"
    using find_exists [of "users db" ?cond] by blast
  show ?thesis
  proof (cases "faults db RegisterFindExisting")
    case None
    from db_First_found [OF None row] show ?thesis
      using None by (simp add: RegisterUser_def)
  next
    case (Some msg)
    from db_First_fault [OF Some, of ?cond "users db"] show ?thesis
      using Some by (simp add: RegisterUser_def)
  qed
qed

theorem RegisterUser_duplicate_identity_witness:
  "RegisterUser (stub_lib ''secret'' []) alice_db
       \<lparr>Reg_Username = ''alice'', Reg_Email = ''alice2@x.com'', Reg_Password = ''secret2'',
        Reg_RoleID = 0\<rparr>
     = (Inl (errors_New ''username or email already exists''), alice_db)
   \<and> RegisterUser (stub_lib ''secret'' []) alice_db
       \<lparr>Reg_Username = ''alice2'', Reg_Email = ''alice@x.com'', Reg_Password = ''secret2'',
        Reg_RoleID = 0\<rparr>
     = (Inl (errors_New ''username or email already exists''), alice_db)"
proof -
  let ?name = "\<lparr>Reg_Username = ''alice'', Reg_Email = ''alice2@x.com'',
                 Reg_Password = ''secret2'', Reg_RoleID = 0\<rparr>"
  let ?mail = "\<lparr>Reg_Username = ''alice2'', Reg_Email = ''alice@x.com'',
                 Reg_Password = ''secret2'', Reg_RoleID = 0\<rparr>"
  have name: "(\<exists>u \<in> set (users alice_db). User_Username u = Reg_Username ?name)
              \<or> (\<exists>u \<in> set (users alice_db). User_Email u = Reg_Email ?name)"
    by (simp add: alice_db_def alice_row_def)
  have mail: "(\<exists>u \<in> set (users alice_db). User_Username u = Reg_Username ?mail)
              \<or> (\<exists>u \<in> set (users alice_db). User_Email u = Reg_Email ?mail)"
    by (simp add: alice_db_def alice_row_def)
  have ok: "faults alice_db RegisterFindExisting = None"
    by (simp add: alice_db_def)
  from RegisterUser_duplicate_identity [OF name, of "stub_lib ''secret'' []"]
    RegisterUser_duplicate_identity [OF mail, of "stub_lib ''secret'' []"] ok
  show ?thesis by blast
qed

text \<open>
  C9. Registration is atomic. Whenever \<open>RegisterUser\<close> returns an error (duplicate
  identity, default role missing, role not found, hashing failure, storage error), the
  store it leaves is the store it found. Whenever it succeeds, exactly one user row was
  appended, with the request's username and email and the active flag set, and the roles
  are untouched. So the user table has changed if and only if the call succeeded.
\<close>

theorem RegisterUser_atomic:
  "(\<forall>err db'. RegisterUser lib db req = (Inl err, db') \<longrightarrow> db' = db)
   \<and> (\<forall>user db'. RegisterUser lib db req = (Inr user, db') \<longrightarrow>
         (\<exists>row. users db' = users db @ [row]
                \<and> User_Username row = Reg_Username req \<and> User_Email row = Reg_Email req
                \<and> User_IsActive row \<and> User_ID row = User_ID user)
         \<and> roles db' = roles db)
   \<and> (users (snd (RegisterUser lib db req)) \<noteq> users db
        \<longleftrightarrow> (\<exists>user. fst (RegisterUser lib db req) = Inr user))"
proof -
  let ?new = "\<lambda>h r. \<lparr>User_ID = 0, User_Username = Reg_Username req, User_Email = Reg_Email req,
      User_Password = h, User_IsActive = True, User_RoleID = r, User_Role = zero_Role,
      User_LastLogin = None\<rparr>"
  have shape: "(\<exists>err. RegisterUser lib db req = (Inl err, db))
     \<or> (\<exists>user h r newID. RegisterUser lib db req
           = (Inr user, db\<lparr>users := users db @ [(?new h r)\<lparr>User_ID := newID, User_Role := zero_Role\<rparr>],
                           user_seq := newID\<rparr>)
          \<and> User_ID user = newID)"
  proof (cases "db_First db RegisterFindExisting
         (\<lambda>u. User_Username u = Reg_Username req \<or> User_Email u = Reg_Email req) (users db)")
    case (Inr existing)
    then show ?thesis by (simp add: RegisterUser_def)
  next
    case lookup: (Inl err)
    show ?thesis
    proof (cases "errors_Is_ErrRecordNotFound err")
      case False
      with lookup show ?thesis by (simp add: RegisterUser_def)
    next
      case nf: True
      show ?thesis
      proof (cases "HashPassword lib (Reg_Password req)")
        case (Inl e)
        with lookup nf show ?thesis by (simp add: RegisterUser_def)
      next
        case hash: (Inr h)
        show ?thesis
        proof (cases "resolve_roleID db req")
          case (Inl e)
          with lookup nf hash show ?thesis by (simp add: RegisterUser_def)
        next
          case role: (Inr r)
          from db_Create_cases [of db RegisterCreate "?new h r"]
          show ?thesis
          proof (elim disjE exE)
            fix e
            assume "db_Create db RegisterCreate (?new h r) = (Inl e, db)"
            with lookup nf hash role show ?thesis by (simp add: RegisterUser_def)
          next
            fix newID
            let ?db' = "db\<lparr>users := users db @ [(?new h r)\<lparr>User_ID := newID, User_Role := zero_Role\<rparr>],
                           user_seq := newID\<rparr>"
            assume created: "db_Create db RegisterCreate (?new h r) = (Inr newID, ?db')"
            have "find (\<lambda>u. User_ID u = newID) (users ?db') = Some row \<Longrightarrow> User_ID row = newID" for row
              by (auto simp: find_Some_iff)
            then have "\<exists>user. RegisterUser lib db req = (Inr user, ?db') \<and> User_ID user = newID"
              using lookup nf hash role created
                db_First_cases [of ?db' RegisterPreload "\<lambda>u. User_ID u = newID" "users ?db'"]
              by (auto simp: RegisterUser_def preload_Role_def)
            then show ?thesis by blast
          qed
        qed
      qed
    qed
  qed
  show ?thesis
    using shape by (elim disjE exE conjE) auto
qed

theorem RegisterUser_atomic_witness:
  "users (snd (RegisterUser (stub_lib ''secret'' []) seeded_db alice_request)) \<noteq> users seeded_db
   \<and> snd (RegisterUser (stub_lib ''secret'' []) alice_db alice_request) = alice_db"
proof -
  have ok: "\<exists>user. fst (RegisterUser (stub_lib ''secret'' []) seeded_db alice_request) = Inr user"
    by (simp add: register_alice)
  have "RegisterUser (stub_lib ''secret'' []) alice_db alice_request
          = (Inl (errors_New ''username or email already exists''), alice_db)"
    by (simp add: RegisterUser_def db_First_def alice_db_def alice_row_def alice_request_def)
  then have dup: "RegisterUser (stub_lib ''secret'' []) alice_db alice_request
          = (Inl (errors_New ''username or email already exists''),
             snd (RegisterUser (stub_lib ''secret'' []) alice_db alice_request))"
    by simp
  from RegisterUser_atomic [of "stub_lib ''secret'' []" seeded_db alice_request] ok
  have 1: "users (snd (RegisterUser (stub_lib ''secret'' []) seeded_db alice_request))
             \<noteq> users seeded_db"
    by blast
  from RegisterUser_atomic [of "stub_lib ''secret'' []" alice_db alice_request] dup
  have 2: "snd (RegisterUser (stub_lib ''secret'' []) alice_db alice_request) = alice_db"
    by blast
  from 1 2 show ?thesis by blast
qed

lemma LoginUser_not_found:
  assumes "faults db LoginFind = None"
    and "find (\<lambda>u. User_Username u = Login_Username req \<or> User_Email u = Login_Username req)
           (users db) = None"
  shows "LoginUser lib cfg clk db req = (Inl (errors_New ''invalid username or password''), db)"
  using db_First_not_found [OF assms] by (simp add: LoginUser_def)

lemma LoginUser_found_inactive:
  assumes "faults db LoginFind = None"
    and "find (\<lambda>u. User_Username u = Login_Username req \<or> User_Email u = Login_Username req)
           (users db) = Some row"
    and "\<not> User_IsActive row"
  shows "LoginUser lib cfg clk db req = (Inl (errors_New ''user account is inactive''), db)"
  using db_First_found [OF assms(1,2)] assms(3) by (simp add: LoginUser_def preload_Role_def)

lemma LoginUser_wrong_password:
  assumes "faults db LoginFind = None"
    and "find (\<lambda>u. User_Username u = Login_Username req \<or> User_Email u = Login_Username req)
           (users db) = Some row"
    and "User_IsActive row"
    and "ValidatePassword lib (User_Password row) (Login_Password req) = Some e"
  shows "LoginUser lib cfg clk db req = (Inl (errors_New ''invalid username or password''), db)"
  using db_First_found [OF assms(1,2)] assms(3,4) by (simp add: LoginUser_def preload_Role_def)

lemma LoginUser_fault:
  assumes "faults db LoginFind = Some msg"
  shows "LoginUser lib cfg clk db req
     = (Inl (Errorf_w ''database error during login: '' (driverError msg)), db)"
  using db_First_fault [OF assms,
      of "\<lambda>u. User_Username u = Login_Username req \<or> User_Email u = Login_Username req" "users db"]
  by (simp add: LoginUser_def)

lemma Login_bound:
  "Login_Username req \<noteq> '''' \<Longrightarrow> Login_Password req \<noteq> '''' \<Longrightarrow>
   ShouldBindJSON validate_LoginRequest (JSON req) = Inr req"
  by (simp add: ShouldBindJSON_def validate_LoginRequest_def)

lemma Login_service_error:
  assumes "ShouldBindJSON validate_LoginRequest body = Inr req"
    and "service db req = (Inl err, db')"
  shows "Login service body db =
     (if errors_Is_ErrRecordNotFound err \<or> Error err = ''invalid username or password''
      then ErrorResponse 401 ''Invalid username or password''
      else if Error err = ''user account is inactive'' then ErrorResponse 401 (Error err)
      else ErrorResponse 500 (''Login failed: '' @ Error err), db')"
  using assms by (simp add: Login_def)

lemma Login_unbound:
  "ShouldBindJSON validate_LoginRequest body = Inl msg \<Longrightarrow>
   Login service body db = (ErrorResponse 400 (''Invalid request payload: '' @ msg), db)"
  by (simp add: Login_def)

section \<open>Claims about login\<close>

text \<open>
  The claim C5 as stated fails when the identifier names two accounts. The lookup takes
  the first user, in primary-key order, whose username or email equals the identifier,
  and only that row is tested. Registration compares username with username and email
  with email, so ann may register under the username \<open>bob@x.com\<close> before bob
  registers that address as his email. With bob deactivated, a login with his email and
  his own correct password finds ann, fails on her hash, and is answered with invalid
  credentials, not with the inactive account.
\<close>

theorem LoginUser_inactive_account_counterexample:
  "users (snd (RegisterUser (stub_lib ''secret'' [])
                 (snd (RegisterUser (stub_lib ''secret'' []) seeded_db ann_request)) bob_request))
     = [ann_row, bob_row\<lparr>User_IsActive := True\<rparr>]
   \<and> users collision_db = [ann_row, bob_row]
   \<and> User_Email bob_row = ''bob@x.com'' \<and> \<not> User_IsActive bob_row
   \<and> ValidatePassword (stub_lib ''secret'' []) (User_Password bob_row) ''hunter22'' = None
   \<and> LoginUser (stub_lib ''secret'' []) demo_cfg demo_clock collision_db
        \<lparr>Login_Username = ''bob@x.com'', Login_Password = ''hunter22''\<rparr>
      = (Inl (errors_New ''invalid username or password''), collision_db)
   \<and> Login (LoginUser (stub_lib ''secret'' []) demo_cfg demo_clock)
        (JSON \<lparr>Login_Username = ''bob@x.com'', Login_Password = ''hunter22''\<rparr>) collision_db
      = (ErrorResponse 401 ''Invalid username or password'', collision_db)"
proof -
  let ?lib = "stub_lib ''secret'' []"
  let ?req = "\<lparr>Login_Username = ''bob@x.com'', Login_Password = ''hunter22''\<rparr>"
  let ?db1 = "\<lparr>users = [ann_row], roles = [staff_role], user_seq = 1,
                faults = (\<lambda>site. None)\<rparr>"
  have ann: "snd (RegisterUser ?lib seeded_db ann_request) = ?db1"
    by (simp add: RegisterUser_def db_First_def seeded_db_def ann_request_def HashPassword_def
        stub_lib_def resolve_roleID_def staff_role_def db_Create_def preload_Role_def
        ann_row_def zero_Role_def)
  have bob: "users (snd (RegisterUser ?lib ?db1 bob_request))
      = [ann_row, bob_row\<lparr>User_IsActive := True\<rparr>]"
    by (simp add: RegisterUser_def db_First_def bob_request_def HashPassword_def
        stub_lib_def resolve_roleID_def staff_role_def db_Create_def preload_Role_def
        ann_row_def bob_row_def zero_Role_def)
  have store: "users collision_db = [ann_row, bob_row]" by (simp add: collision_db_def)
  have row: "User_Email bob_row = ''bob@x.com''" "\<not> User_IsActive bob_row"
    by (simp_all add: bob_row_def)
  have correct: "ValidatePassword ?lib (User_Password bob_row) ''hunter22'' = None"
    by (simp add: ValidatePassword_def stub_lib_def bob_row_def)
  have nofault: "faults collision_db LoginFind = None" by (simp add: collision_db_def)
  have found: "find (\<lambda>u. User_Username u = Login_Username ?req \<or> User_Email u = Login_Username ?req)
                 (users collision_db) = Some ann_row"
    by (simp add: collision_db_def ann_row_def)
  have active: "User_IsActive ann_row" by (simp add: ann_row_def)
  have wrong: "ValidatePassword ?lib (User_Password ann_row) (Login_Password ?req)
      = Some (libraryError ''crypto/bcrypt: hashedPassword is not the hash of the given password'')"
    by (simp add: ValidatePassword_def stub_lib_def ann_row_def)
  note service = LoginUser_wrong_password [OF nofault found active wrong, of demo_cfg demo_clock]
  have bound: "ShouldBindJSON validate_LoginRequest (JSON ?req) = Inr ?req"
    by (simp add: Login_bound)
  have handler: "Login (LoginUser ?lib demo_cfg demo_clock) (JSON ?req) collision_db
      = (ErrorResponse 401 ''Invalid username or password'', collision_db)"
    using Login_service_error [where service = "LoginUser ?lib demo_cfg demo_clock"
        and db = collision_db, OF bound service]
    by (simp add: errors_New_def)
  from ann bob store row correct service handler show ?thesis by simp
qed

text \<open>
  C5, amended. When the user the lookup returns for a login request (the first, in
  primary-key order, whose username or email equals the identifier) is deactivated, login
  fails, whatever the password: the service returns an error and the unchanged store, and
  the handler sends an error response, never a token. Unless the lookup itself meets a
  storage error, the error is the one for an inactive account, which differs from the one
  for invalid credentials in the service and in the response alike. The check stands
  before the password comparison and before the token is made.
\<close>

theorem LoginUser_inactive_account:
  assumes found: "find (\<lambda>u. User_Username u = Login_Username req \<or> User_Email u = Login_Username req)
                    (users db) = Some row"
    and inactive: "\<not> User_IsActive row"
  shows "(\<exists>err. LoginUser lib cfg clk db req = (Inl err, db))
       \<and> (\<exists>code msg. Login (LoginUser lib cfg clk) (JSON req) db = (ErrorResponse code msg, db))
       \<and> (faults db LoginFind = None \<longrightarrow>
            LoginUser lib cfg clk db req = (Inl (errors_New ''user account is inactive''), db)
            \<and> (Login_Username req \<noteq> '''' \<and> Login_Password req \<noteq> '''' \<longrightarrow>
                 Login (LoginUser lib cfg clk) (JSON req) db
                   = (ErrorResponse 401 ''user account is inactive'', db)))
       \<and> errors_New ''user account is inactive'' \<noteq> errors_New ''invalid username or password''
       \<and> ErrorResponse 401 ''user account is inactive''
            \<noteq> ErrorResponse 401 ''Invalid username or password''"
proof -
  have service: "\<exists>err. LoginUser lib cfg clk db req = (Inl err, db)"
  proof (cases "faults db LoginFind")
    case None
    from LoginUser_found_inactive [OF None found inactive] show ?thesis by blast
  next
    case (Some msg)
    from LoginUser_fault [OF Some] show ?thesis by blast
  qed
  have handler: "\<exists>code msg. Login (LoginUser lib cfg clk) (JSON req) db = (ErrorResponse code msg, db)"
  proof (cases "ShouldBindJSON validate_LoginRequest (JSON req)")
    case (Inl msg)
    from Login_unbound [OF Inl] show ?thesis by blast
  next
    case (Inr req')
    then have "req' = req" by (simp add: ShouldBindJSON_def split: list.splits)
    with Inr service obtain err where "Login (LoginUser lib cfg clk) (JSON req) db =
     (if errors_Is_ErrRecordNotFound err \<or> Error err = ''invalid username or password''
      then ErrorResponse 401 ''Invalid username or password''
      else if Error err = ''user account is inactive'' then ErrorResponse 401 (Error err)
      else ErrorResponse 500 (''Login failed: '' @ Error err), db)"
      using Login_service_error [of "JSON req" req "LoginUser lib cfg clk" db _ db] by blast
    then show ?thesis by (simp split: if_splits)
  qed
  have normal: "LoginUser lib cfg clk db req = (Inl (errors_New ''user account is inactive''), db)
            \<and> (Login_Username req \<noteq> '''' \<and> Login_Password req \<noteq> '''' \<longrightarrow>
                 Login (LoginUser lib cfg clk) (JSON req) db
                   = (ErrorResponse 401 ''user account is inactive'', db))"
    if nofault: "faults db LoginFind = None"
  proof -
    note r = LoginUser_found_inactive [OF nofault found inactive, of lib cfg clk]
    have "Login (LoginUser lib cfg clk) (JSON req) db
                   = (ErrorResponse 401 ''user account is inactive'', db)"
      if "Login_Username req \<noteq> ''''" "Login_Password req \<noteq> ''''"
      using Login_service_error [where service = "LoginUser lib cfg clk" and db = db,
          OF Login_bound [OF that] r] by (simp add: errors_New_def)
    with r show ?thesis by blast
  qed
  have distinct: "errors_New ''user account is inactive'' \<noteq> errors_New ''invalid username or password''"
    "ErrorResponse 401 ''user account is inactive'' \<noteq> ErrorResponse 401 ''Invalid username or password''"
    by (simp_all add: errors_New_def)
  from service handler normal distinct show ?thesis by blast
qed

theorem LoginUser_inactive_account_witness:
  "bcrypt_CompareHashAndPassword (stub_lib ''secret'' []) (User_Password bob_row) ''hunter22'' = None
   \<and> LoginUser (stub_lib ''secret'' []) demo_cfg demo_clock office_db
        \<lparr>Login_Username = ''bob'', Login_Password = ''hunter22''\<rparr>
      = (Inl (errors_New ''user account is inactive''), office_db)
   \<and> Login (LoginUser (stub_lib ''secret'' []) demo_cfg demo_clock)
        (JSON \<lparr>Login_Username = ''bob'', Login_Password = ''hunter22''\<rparr>) office_db
      = (ErrorResponse 401 ''user account is inactive'', office_db)"
proof -
  let ?req = "\<lparr>Login_Username = ''bob'', Login_Password = ''hunter22''\<rparr>"
  have found: "find (\<lambda>u. User_Username u = Login_Username ?req \<or> User_Email u = Login_Username ?req)
                 (users office_db) = Some bob_row"
    by (simp add: office_db_def alice_row_def bob_row_def)
  have inactive: "\<not> User_IsActive bob_row" by (simp add: bob_row_def)
  have nofault: "faults office_db LoginFind = None" by (simp add: office_db_def)
  have correct: "bcrypt_CompareHashAndPassword (stub_lib ''secret'' []) (User_Password bob_row)
                   ''hunter22'' = None"
    by (simp add: stub_lib_def bob_row_def)
  from LoginUser_inactive_account [OF found inactive, of "stub_lib ''secret'' []" demo_cfg demo_clock]
    nofault correct
  show ?thesis by simp
qed




lemma Register_unbound:
  "ShouldBindJSON (validate_RegisterRequest lib) body = Inl msg \<Longrightarrow>
   Register lib service body db = (ErrorResponse 400 (''Invalid request payload: '' @ msg), db)"
  by (simp add: Register_def)

lemma ShouldBindJSON_JSON:
  "ShouldBindJSON validate (JSON req) = Inr req' \<Longrightarrow> req' = req \<and> validate req = []"
  by (simp add: ShouldBindJSON_def split: list.splits)

lemma validate_LoginRequest_empty:
  "Login_Username req = '''' \<or> Login_Password req = '''' \<Longrightarrow> validate_LoginRequest req \<noteq> []"
  by (auto simp: validate_LoginRequest_def)

lemma validate_RegisterRequest_short:
  "utf8_RuneCountInString lib (Reg_Password req) < 6 \<Longrightarrow> validate_RegisterRequest lib req \<noteq> []"
  by (simp add: validate_RegisterRequest_def)

section \<open>Claims about the boundary\<close>

text \<open>
  The claim C7 as stated fails on fields of spaces only. The two handlers compare with
  the empty string and the binding tag \<open>required\<close> rejects the zero value only: a login
  whose identifier and password are two spaces each is passed to the Auth Service, whose
  lookup answers it, and a registration with a username of three spaces and a password
  of six is carried out.
\<close>

theorem boundary_whitespace_counterexample:
  "Login (LoginUser (stub_lib ''secret'' []) demo_cfg demo_clock)
       (JSON \<lparr>Login_Username = ''  '', Login_Password = ''  ''\<rparr>) office_db
     = (ErrorResponse 401 ''Invalid username or password'', office_db)
   \<and> status (fst (Register (stub_lib ''secret'' []) (RegisterUser (stub_lib ''secret'' []))
        (JSON \<lparr>Reg_Username = ''   '', Reg_Email = ''a@x.com'', Reg_Password = ''      '',
               Reg_RoleID = 0\<rparr>) seeded_db)) = 201
   \<and> map User_Username (users (snd (Register (stub_lib ''secret'' [])
        (RegisterUser (stub_lib ''secret'' []))
        (JSON \<lparr>Reg_Username = ''   '', Reg_Email = ''a@x.com'', Reg_Password = ''      '',
               Reg_RoleID = 0\<rparr>) seeded_db))) = [''   '']"
proof -
  let ?l = "\<lparr>Login_Username = ''  '', Login_Password = ''  ''\<rparr>"
  let ?r = "\<lparr>Reg_Username = ''   '', Reg_Email = ''a@x.com'', Reg_Password = ''      '',
             Reg_RoleID = 0\<rparr>"
  have nofault: "faults office_db LoginFind = None" by (simp add: office_db_def)
  have service: "LoginUser (stub_lib ''secret'' []) demo_cfg demo_clock office_db ?l
      = (Inl (errors_New ''invalid username or password''), office_db)"
    by (rule LoginUser_not_found [OF nofault])
       (simp add: office_db_def alice_row_def bob_row_def)
  have bound: "ShouldBindJSON validate_LoginRequest (JSON ?l) = Inr ?l"
    by (simp add: Login_bound)
  have 1: "Login (LoginUser (stub_lib ''secret'' []) demo_cfg demo_clock) (JSON ?l) office_db
     = (ErrorResponse 401 ''Invalid username or password'', office_db)"
    using Login_service_error [where service = "LoginUser (stub_lib ''secret'' []) demo_cfg demo_clock"
        and db = office_db, OF bound service]
    by (simp add: errors_New_def)
  have created: "\<exists>user. RegisterUser (stub_lib ''secret'' []) seeded_db ?r
      = (Inr user, seeded_db\<lparr>users := [\<lparr>User_ID = 1, User_Username = ''   '',
            User_Email = ''a@x.com'', User_Password = ''$2a$10$      '', User_IsActive = True,
            User_RoleID = 1, User_Role = zero_Role, User_LastLogin = None\<rparr>], user_seq := 1\<rparr>)"
    by (simp add: RegisterUser_def db_First_def seeded_db_def HashPassword_def
      stub_lib_def resolve_roleID_def staff_role_def db_Create_def preload_Role_def zero_Role_def)
  have rbound: "ShouldBindJSON (validate_RegisterRequest (stub_lib ''secret'' [])) (JSON ?r) = Inr ?r"
    by (simp add: ShouldBindJSON_def validate_RegisterRequest_def stub_lib_def)
  from created rbound
  have 2: "status (fst (Register (stub_lib ''secret'' []) (RegisterUser (stub_lib ''secret'' []))
        (JSON ?r) seeded_db)) = 201
     \<and> map User_Username (users (snd (Register (stub_lib ''secret'' [])
        (RegisterUser (stub_lib ''secret'' [])) (JSON ?r) seeded_db))) = [''   '']"
    by (auto simp: Register_def)
  from 1 2 show ?thesis by blast
qed

text \<open>
  C7, amended. A Register request whose username, email or password is the empty string
  (an absent field decodes to it), or whose password is shorter than six bytes or six
  runes, and a Login request whose identifier or password is the empty string, are
  answered 400 at the boundary with the store untouched, whatever the Auth Service
  behind the handler is: the service does not run.
\<close>

theorem boundary_rejects_empty_and_short:
  "(Reg_Username req = '''' \<or> Reg_Email req = '''' \<or> Reg_Password req = ''''
      \<or> length (Reg_Password req) < 6 \<or> utf8_RuneCountInString lib (Reg_Password req) < 6
     \<longrightarrow> (\<exists>msg. Register lib rservice (JSON req) db = (ErrorResponse 400 msg, db)))
   \<and> (Login_Username lreq = '''' \<or> Login_Password lreq = ''''
     \<longrightarrow> (\<exists>msg. Login lservice (JSON lreq) db = (ErrorResponse 400 msg, db)))"
proof (intro conjI impI)
  assume bad: "Reg_Username req = '''' \<or> Reg_Email req = '''' \<or> Reg_Password req = ''''
      \<or> length (Reg_Password req) < 6 \<or> utf8_RuneCountInString lib (Reg_Password req) < 6"
  show "\<exists>msg. Register lib rservice (JSON req) db = (ErrorResponse 400 msg, db)"
  proof (cases "ShouldBindJSON (validate_RegisterRequest lib) (JSON req)")
    case (Inl msg)
    from Register_unbound [OF Inl] show ?thesis by blast
  next
    case (Inr req')
    from ShouldBindJSON_JSON [OF Inr] have eq: "req' = req"
      and valid: "validate_RegisterRequest lib req = []" by simp_all
    from valid validate_RegisterRequest_short [of lib req]
    have "\<not> utf8_RuneCountInString lib (Reg_Password req) < 6" by blast
    with bad have "Reg_Username req = '''' \<or> Reg_Email req = '''' \<or> Reg_Password req = ''''
      \<or> length (Reg_Password req) < 6" by blast
    with Inr eq show ?thesis by (auto simp: Register_def)
  qed
next
  assume bad: "Login_Username lreq = '''' \<or> Login_Password lreq = ''''"
  show "\<exists>msg. Login lservice (JSON lreq) db = (ErrorResponse 400 msg, db)"
  proof (cases "ShouldBindJSON validate_LoginRequest (JSON lreq)")
    case (Inl msg)
    from Login_unbound [OF Inl] show ?thesis by blast
  next
    case (Inr req')
    from ShouldBindJSON_JSON [OF Inr] validate_LoginRequest_empty [OF bad]
    show ?thesis by blast
  qed
qed

theorem boundary_rejects_empty_and_short_witness:
  "(\<exists>msg. Register (stub_lib ''secret'' []) (RegisterUser (stub_lib ''secret'' []))
             (JSON \<lparr>Reg_Username = ''alice'', Reg_Email = ''alice@x.com'',
                    Reg_Password = ''abcde'', Reg_RoleID = 0\<rparr>) seeded_db
           = (ErrorResponse 400 msg, seeded_db))
   \<and> (\<exists>msg. Login (LoginUser (stub_lib ''secret'' []) demo_cfg demo_clock)
             (JSON \<lparr>Login_Username = '''', Login_Password = ''secret1''\<rparr>) alice_db
           = (ErrorResponse 400 msg, alice_db))"
proof -
  let ?r = "\<lparr>Reg_Username = ''alice'', Reg_Email = ''alice@x.com'',
             Reg_Password = ''abcde'', Reg_RoleID = 0\<rparr>"
  let ?l = "\<lparr>Login_Username = '''', Login_Password = ''secret1''\<rparr>"
  have short: "length (Reg_Password ?r) < 6" by simp
  have empty: "Login_Username ?l = ''''" by simp
  from boundary_rejects_empty_and_short [of ?r "stub_lib ''secret'' []"
      "RegisterUser (stub_lib ''secret'' [])" seeded_db ?l
      "LoginUser (stub_lib ''secret'' []) demo_cfg demo_clock"] short
  have 1: "\<exists>msg. Register (stub_lib ''secret'' []) (RegisterUser (stub_lib ''secret'' []))
             (JSON ?r) seeded_db = (ErrorResponse 400 msg, seeded_db)"
    by blast
  from boundary_rejects_empty_and_short [of ?r "stub_lib ''secret'' []"
      "RegisterUser (stub_lib ''secret'' [])" alice_db ?l
      "LoginUser (stub_lib ''secret'' []) demo_cfg demo_clock"] empty
  have 2: "\<exists>msg. Login (LoginUser (stub_lib ''secret'' []) demo_cfg demo_clock)
             (JSON ?l) alice_db = (ErrorResponse 400 msg, alice_db)"
    by blast
  from 1 2 show ?thesis by blast
qed

lemma int64_id: "- (2 ^ 63) \<le> x \<Longrightarrow> x < 2 ^ 63 \<Longrightarrow> int64 x = x"
  by (simp add: int64_def)

lemma Duration_mul_Hour:
  assumes "\<bar>h\<bar> \<le> 2562047"
  shows "Duration_mul h Hour = h * Hour"
proof -
  from assms have h: "- 2562047 \<le> h" "h \<le> 2562047" by simp_all
  then have "int64 h = h" by (intro int64_id) simp_all
  moreover from h have "- (2 ^ 63) \<le> h * Hour" "h * Hour < 2 ^ 63"
    by (simp_all add: Hour_def Second_def)
  ultimately show ?thesis by (simp add: Duration_mul_def int64_id)
qed

lemma token_ttl_hours:
  "\<bar>JWTExpirationHours cfg\<bar> \<le> 2562047 \<Longrightarrow>
   token_ttl cfg = (if JWTExpirationHours cfg = 0 then 168 else JWTExpirationHours cfg) * Hour"
  by (simp add: token_ttl_def Duration_mul_Hour)

lemma truncate_add_hours: "((t + k * Hour) div Second) * Second = (t div Second) * Second + k * Hour"
proof -
  have H: "k * Hour = (k * 3600) * Second"
    unfolding Hour_def by (rule mult.assoc [symmetric])
  have "(t + (k * 3600) * Second) div Second = k * 3600 + t div Second"
    by (rule div_mult_self1) (simp add: Second_def)
  then have "(t + k * Hour) div Second = k * 3600 + t div Second"
    by (simp only: H)
  then have "((t + k * Hour) div Second) * Second = (k * 3600 + t div Second) * Second"
    by (simp only:)
  also have "\<dots> = (t div Second) * Second + k * Hour"
    by (simp only: H distrib_right add.commute)
  finally show ?thesis .
qed


lemma jwt_claims_dates:
  assumes "\<bar>JWTExpirationHours cfg\<bar> \<le> 2562047"
  shows "ExpiresAt (jwt_claims cfg clk u)
           = Some ((exp_reading cfg clk div Second) * Second + token_ttl cfg)"
    and "IssuedAt (jwt_claims cfg clk u) = Some ((now_iat clk div Second) * Second)"
    and "NotBefore (jwt_claims cfg clk u) = Some ((now_nbf clk div Second) * Second)"
proof -
  show "ExpiresAt (jwt_claims cfg clk u)
           = Some ((exp_reading cfg clk div Second) * Second + token_ttl cfg)"
  proof (cases "JWTExpirationHours cfg = 0")
    case True
    then show ?thesis
      using truncate_add_hours [of "now_exp_default clk" 168]
      by (simp add: jwt_claims_def exp_reading_def token_ttl_def NewNumericDate_def time_Add_def)
  next
    case False
    then show ?thesis
      using truncate_add_hours [of "now_exp clk" "JWTExpirationHours cfg"] assms
      by (simp add: jwt_claims_def exp_reading_def token_ttl_def NewNumericDate_def time_Add_def
          Duration_mul_Hour)
  qed
qed (simp_all add: jwt_claims_def NewNumericDate_def Let_def)



lemma TokenCodec_parse_signed:
  assumes "ParseUnverified codec tokenString = Inr token"
    and "Method token = SigningMethodHMAC alg"
    and "Verify codec tokenString jwtSecret = None"
  shows "TokenCodec_parse codec tokenString (keyFunc jwtSecret) now =
     (case jwt_Validate (Token_Claims token) now of
        [] \<Rightarrow> Inr (token\<lparr>Valid := True\<rparr>)
      | errs \<Rightarrow> Inl \<lparr>sentinels = ErrTokenInvalidClaims # errs,
                      jwt_text = ''token has invalid claims: ''
                                   @ join_with '', '' (map sentinel_text errs)\<rparr>)"
  using assms by (simp add: TokenCodec_parse_def keyFunc_def)

lemma jwt_Validate_window:
  assumes "ExpiresAt claims = Some exp" and "NotBefore claims = Some nbf"
  shows "nbf \<le> now \<Longrightarrow> now < exp \<Longrightarrow> jwt_Validate claims now = []"
    and "exp \<le> now \<Longrightarrow> \<exists>rest. jwt_Validate claims now = ErrTokenExpired # rest
                                   \<and> set rest \<subseteq> {ErrTokenNotValidYet}"
    and "now < exp \<Longrightarrow> now < nbf \<Longrightarrow> jwt_Validate claims now = [ErrTokenNotValidYet]"
  using assms by (auto simp: jwt_Validate_def)

lemma stub_lib_issue:
  "jwt_SignedString (stub_lib secret [(s, claims)]) claims key = Inr s"
  by (simp add: stub_lib_def)

lemma stub_lib_parse: "jwt_ParseWithClaims (stub_lib secret issued) = TokenCodec_parse (stub_codec secret issued)"
  by (simp add: stub_lib_def)

lemma stub_codec_decode:
  "ParseUnverified (stub_codec secret [(s, claims)]) s
     = Inr \<lparr>Method = SigningMethodHMAC ''HS256'', Token_Claims = claims, Valid = False\<rparr>"
  by (simp add: stub_codec_def)

lemma stub_codec_verify: "Verify (stub_codec secret issued) s secret = None"
  by (simp add: stub_codec_def)

lemma GenerateJWT_named:
  "Role_Name (User_Role user) \<noteq> '''' \<Longrightarrow>
   jwt_SignedString lib (jwt_claims cfg clk user) (JWTSecret cfg) = Inr s \<Longrightarrow>
   GenerateJWT lib db cfg clk user = (Inr s, user)"
  by (simp add: GenerateJWT_def)

lemma alice_named: "Role_Name (User_Role alice) \<noteq> ''''"
  by (simp add: alice_def staff_role_def)

lemma demo_cfg_fields: "JWTSecret demo_cfg = ''secret''" "JWTExpirationHours demo_cfg = 168"
  by (simp_all add: demo_cfg_def)




lemma protected_continues:
  "AuthMiddleware lib (JWTSecret cfg) now c = c' \<Longrightarrow> \<not> Aborted c' \<Longrightarrow>
   protected lib db cfg now handlers c = run_handlers handlers c'"
  unfolding protected_def by (rule run_handlers_continues)


lemma alice_lib_parse: "jwt_ParseWithClaims (alice_lib clk) = TokenCodec_parse (alice_codec clk)"
  unfolding alice_lib_def alice_codec_def by (rule stub_lib_parse)

lemma alice_codec_decodes:
  "ParseUnverified (alice_codec clk) ''tok''
     = Inr \<lparr>Method = SigningMethodHMAC ''HS256'', Token_Claims = jwt_claims demo_cfg clk alice,
            Valid = False\<rparr>"
  unfolding alice_codec_def by (rule stub_codec_decode)

lemma alice_codec_verifies: "Verify (alice_codec clk) ''tok'' (JWTSecret demo_cfg) = None"
  unfolding alice_codec_def demo_cfg_fields by (rule stub_codec_verify)

lemma instant_clock_readings:
  "exp_reading cfg (instant_clock t) = t" "now_iat (instant_clock t) = t"
  "now_nbf (instant_clock t) = t"
  by (simp_all add: exp_reading_def instant_clock_def)


section \<open>Claims about the token's lifetime\<close>




lemma jwt_claims_LastLogin: "jwt_claims cfg clk (u\<lparr>User_LastLogin := x\<rparr>) = jwt_claims cfg clk u"
  by (simp add: jwt_claims_def)

lemma alice_logs_in:
  "LoginUser (alice_lib (instant_clock t)) demo_cfg (instant_clock t) alice_db
       \<lparr>Login_Username = ''alice@x.com'', Login_Password = ''secret1''\<rparr>
     = (Inr \<lparr>Auth_User = \<lparr>Compact_ID = 1, Compact_Username = ''alice'',
                           Compact_Email = ''alice@x.com'', Compact_RoleName = ''staff'',
                           Compact_IsActive = True\<rparr>,
             AccessToken = ''tok'', RefreshToken = ''''\<rparr>,
        alice_logged_in_db t)"
proof -
  let ?clk = "instant_clock t"
  let ?req = "\<lparr>Login_Username = ''alice@x.com'', Login_Password = ''secret1''\<rparr>"
  let ?user = "alice\<lparr>User_LastLogin := Some t\<rparr>"
  have found: "db_First alice_db LoginFind
      (\<lambda>u. User_Username u = Login_Username ?req \<or> User_Email u = Login_Username ?req)
      (users alice_db) = Inr alice_row"
    by (simp add: db_First_def alice_db_def alice_row_def)
  have loaded: "preload_Role alice_db alice_row = alice"
    by (simp add: preload_Role_def alice_db_def alice_row_def staff_role_def alice_def)
  have password: "ValidatePassword (alice_lib ?clk) (User_Password alice) (Login_Password ?req) = None"
    by (simp add: ValidatePassword_def alice_lib_def stub_lib_def alice_def alice_row_def)
  have saved: "snd (db_Save alice_db LoginSave ?user) = alice_logged_in_db t"
    by (simp add: db_Save_def alice_db_def alice_logged_in_db_def alice_def alice_row_def)
  have token: "GenerateJWT (alice_lib ?clk) (alice_logged_in_db t) demo_cfg ?clk ?user
      = (Inr ''tok'', ?user)"
    unfolding alice_lib_def
    by (intro GenerateJWT_named) (simp_all add: alice_named jwt_claims_LastLogin stub_lib_issue)
  have active: "User_IsActive alice" by (simp add: alice_def alice_row_def)
  show ?thesis
    using found loaded password saved token active
    by (simp add: LoginUser_def instant_clock_def alice_def alice_row_def staff_role_def)
qed

lemma alice_token_valid:
  assumes "t div Second * Second \<le> now" and "now < t div Second * Second + 168 * Hour"
  shows "jwt_ParseWithClaims (alice_lib (instant_clock t)) ''tok'' (keyFunc (JWTSecret demo_cfg)) now
     = Inr \<lparr>Method = SigningMethodHMAC ''HS256'',
            Token_Claims = jwt_claims demo_cfg (instant_clock t) alice, Valid = True\<rparr>"
proof -
  have range: "\<bar>JWTExpirationHours demo_cfg\<bar> \<le> 2562047" by (simp add: demo_cfg_fields)
  have ttl: "token_ttl demo_cfg = 168 * Hour"
    using token_ttl_hours [OF range] by (simp add: demo_cfg_fields)
  have hmac: "Method \<lparr>Method = SigningMethodHMAC ''HS256'',
      Token_Claims = jwt_claims demo_cfg (instant_clock t) alice, Valid = False\<rparr>
        = SigningMethodHMAC ''HS256''"
    by simp
  have "jwt_Validate (jwt_claims demo_cfg (instant_clock t) alice) now = []"
    using jwt_claims_dates [OF range, of "instant_clock t" alice] assms
    by (intro jwt_Validate_window(1)) (simp_all add: instant_clock_readings ttl)
  with TokenCodec_parse_signed [OF alice_codec_decodes hmac alice_codec_verifies,
      where now = now]
  show ?thesis by (simp add: alice_lib_parse)
qed

lemma alice_locked_out:
  "LoginUser lib cfg clk (alice_deactivated_db t)
       \<lparr>Login_Username = ''alice@x.com'', Login_Password = ''secret1''\<rparr>
     = (Inl (errors_New ''user account is inactive''), alice_deactivated_db t)"
  by (rule LoginUser_found_inactive [where row = "alice_row\<lparr>User_LastLogin := Some t,
        User_IsActive := False, User_RoleID := 7\<rparr>"])
     (simp_all add: alice_deactivated_db_def alice_db_def alice_row_def)

lemma AuthMiddleware_decides:
  "AuthMiddleware lib jwtSecret now c
     = (case (if GetHeader c ''Authorization'' = '''' then Inl ''Authorization header is required''
              else if length (strings_Split (GetHeader c ''Authorization'') CHR '' '') \<noteq> 2
              then Inl ''Authorization header format must be Bearer {token}''
              else if \<not> strings_EqualFold
                         (strings_Split (GetHeader c ''Authorization'') CHR '' '' ! 0) ''bearer''
              then Inl ''Authorization header format must be Bearer {token}''
              else (case jwt_ParseWithClaims lib
                           (strings_Split (GetHeader c ''Authorization'') CHR '' '' ! 1)
                           (keyFunc jwtSecret) now of
                      Inl err \<Rightarrow> Inl (errMsg err)
                    | Inr token \<Rightarrow> if \<not> Valid token then Inl ''Token is invalid.''
                                   else Inr (Token_Claims token))) of
          Inl msg \<Rightarrow> Abort (SendErrorResponse c 401 msg)
        | Inr claims \<Rightarrow> identity_context claims c)"
proof (cases "GetHeader c ''Authorization'' = ''''")
  case True
  then show ?thesis by (simp add: AuthMiddleware_def)
next
  case h: False
  show ?thesis
  proof (cases "length (strings_Split (GetHeader c ''Authorization'') CHR '' '') \<noteq> 2")
    case True
    with h show ?thesis by (simp add: AuthMiddleware_def Let_def)
  next
    case l: False
    show ?thesis
    proof (cases "strings_EqualFold
                    (strings_Split (GetHeader c ''Authorization'') CHR '' '' ! 0) ''bearer''")
      case False
      with h l show ?thesis by (simp add: AuthMiddleware_def Let_def)
    next
      case e: True
      show ?thesis
      proof (cases "jwt_ParseWithClaims lib
                      (strings_Split (GetHeader c ''Authorization'') CHR '' '' ! 1)
                      (keyFunc jwtSecret) now")
        case (Inl err)
        with h l e show ?thesis by (simp add: AuthMiddleware_def Let_def)
      next
        case (Inr token)
        with h l e show ?thesis
          by (cases "Valid token") (simp_all add: AuthMiddleware_def Let_def identity_context_def)
      qed
    qed
  qed
qed

section \<open>Claims about statelessness\<close>

text \<open>
  C8. What the Authentication Gate does with a request is a function of the request's
  Authorization header, the signing secret and the current time alone: it reads nothing
  else of the context and nothing of the Credential Store, so the protected chain answers
  alike in any two states of the store. In particular, when a login has issued a token
  and the library parses that token as valid at the time of the request, the request
  passes the gate with the identity of the token in whatever state the store is by then,
  also one in which the account has been deactivated or given another role.
\<close>

theorem authentication_gate_stateless:
  "(\<exists>decide. \<forall>jwtSecret now c.
       AuthMiddleware lib jwtSecret now c
         = (case decide jwtSecret now (GetHeader c ''Authorization'') of
              Inl msg \<Rightarrow> Abort (SendErrorResponse c 401 msg)
            | Inr claims \<Rightarrow> identity_context claims c))
   \<and> protected lib db1 cfg now handlers c = protected lib db2 cfg now handlers c
   \<and> (LoginUser lib cfg clk db req = (Inr resp, db1)
        \<and> GetHeader c ''Authorization'' = scheme @ CHR '' '' # AccessToken resp
        \<and> CHR '' '' \<notin> set scheme \<and> strings_EqualFold scheme ''bearer''
        \<and> CHR '' '' \<notin> set (AccessToken resp)
        \<and> jwt_ParseWithClaims lib (AccessToken resp) (keyFunc (JWTSecret cfg)) now = Inr token
        \<and> Valid token \<and> \<not> Aborted c
      \<longrightarrow> protected lib db2 cfg now handlers c
            = run_handlers handlers (identity_context (Token_Claims token) c))"
proof (intro conjI impI)
  let ?decide = "\<lambda>jwtSecret now authHeader.
     if authHeader = '''' then Inl ''Authorization header is required''
     else if length (strings_Split authHeader CHR '' '') \<noteq> 2
     then Inl ''Authorization header format must be Bearer {token}''
     else if \<not> strings_EqualFold (strings_Split authHeader CHR '' '' ! 0) ''bearer''
     then Inl ''Authorization header format must be Bearer {token}''
     else (case jwt_ParseWithClaims lib (strings_Split authHeader CHR '' '' ! 1)
                  (keyFunc jwtSecret) now of
             Inl err \<Rightarrow> Inl (errMsg err)
           | Inr token \<Rightarrow> if \<not> Valid token then Inl ''Token is invalid.''
                          else Inr (Token_Claims token))"
  have all: "\<forall>jwtSecret now c. AuthMiddleware lib jwtSecret now c
         = (case ?decide jwtSecret now (GetHeader c ''Authorization'') of
              Inl msg \<Rightarrow> Abort (SendErrorResponse c 401 msg)
            | Inr claims \<Rightarrow> identity_context claims c)"
    by (intro allI) (rule AuthMiddleware_decides)
  show "\<exists>decide. \<forall>jwtSecret now c.
       AuthMiddleware lib jwtSecret now c
         = (case decide jwtSecret now (GetHeader c ''Authorization'') of
              Inl msg \<Rightarrow> Abort (SendErrorResponse c 401 msg)
            | Inr claims \<Rightarrow> identity_context claims c)"
    by (rule exI [where x = ?decide]) (rule all)
next
  show "protected lib db1 cfg now handlers c = protected lib db2 cfg now handlers c"
    by (simp add: protected_def)
next
  assume h: "LoginUser lib cfg clk db req = (Inr resp, db1)
        \<and> GetHeader c ''Authorization'' = scheme @ CHR '' '' # AccessToken resp
        \<and> CHR '' '' \<notin> set scheme \<and> strings_EqualFold scheme ''bearer''
        \<and> CHR '' '' \<notin> set (AccessToken resp)
        \<and> jwt_ParseWithClaims lib (AccessToken resp) (keyFunc (JWTSecret cfg)) now = Inr token
        \<and> Valid token \<and> \<not> Aborted c"
  then have "AuthMiddleware lib (JWTSecret cfg) now c = identity_context (Token_Claims token) c"
    by (intro AuthMiddleware_accepts [of c scheme "AccessToken resp"]) simp_all
  with h show "protected lib db2 cfg now handlers c
            = run_handlers handlers (identity_context (Token_Claims token) c)"
    by (intro protected_continues) (simp_all add: Aborted_identity_context)
qed

theorem authentication_gate_stateless_witness:
  "fst (LoginUser (alice_lib (instant_clock (1000 * Second))) demo_cfg
          (instant_clock (1000 * Second)) (alice_deactivated_db (1000 * Second))
          \<lparr>Login_Username = ''alice@x.com'', Login_Password = ''secret1''\<rparr>)
     = Inl (errors_New ''user account is inactive'')
   \<and> protected (alice_lib (instant_clock (1000 * Second))) (alice_deactivated_db (1000 * Second))
        demo_cfg (1000 * Second + Hour) [me] (bearer_request ''tok'')
     = run_handlers [me]
         (identity_context (jwt_claims demo_cfg (instant_clock (1000 * Second)) alice)
           (bearer_request ''tok''))
   \<and> Claims_Role (jwt_claims demo_cfg (instant_clock (1000 * Second)) alice) = ''staff''"
proof -
  let ?t = "1000 * Second"
  let ?lib = "alice_lib (instant_clock ?t)"
  let ?resp = "\<lparr>Auth_User = \<lparr>Compact_ID = 1, Compact_Username = ''alice'',
                           Compact_Email = ''alice@x.com'', Compact_RoleName = ''staff'',
                           Compact_IsActive = True\<rparr>,
             AccessToken = ''tok'', RefreshToken = ''''\<rparr>"
  let ?token = "\<lparr>Method = SigningMethodHMAC ''HS256'',
            Token_Claims = jwt_claims demo_cfg (instant_clock ?t) alice, Valid = True\<rparr>"
  have parse: "jwt_ParseWithClaims ?lib ''tok'' (keyFunc (JWTSecret demo_cfg)) (?t + Hour)
                 = Inr ?token"
    by (rule alice_token_valid) (simp_all add: Hour_def Second_def)
  have hyp: "LoginUser ?lib demo_cfg (instant_clock ?t) alice_db
          \<lparr>Login_Username = ''alice@x.com'', Login_Password = ''secret1''\<rparr>
        = (Inr ?resp, alice_logged_in_db ?t)
        \<and> GetHeader (bearer_request ''tok'') ''Authorization'' = ''Bearer'' @ CHR '' '' # AccessToken ?resp
        \<and> CHR '' '' \<notin> set ''Bearer'' \<and> strings_EqualFold ''Bearer'' ''bearer''
        \<and> CHR '' '' \<notin> set (AccessToken ?resp)
        \<and> jwt_ParseWithClaims ?lib (AccessToken ?resp) (keyFunc (JWTSecret demo_cfg)) (?t + Hour)
            = Inr ?token
        \<and> Valid ?token \<and> \<not> Aborted (bearer_request ''tok'')"
    using alice_logs_in [of ?t] parse
    by (simp add: bearer_request_header EqualFold_Bearer bearer_request_fresh)
  note g = authentication_gate_stateless [THEN conjunct2, THEN conjunct2, rule_format,
      where lib = ?lib and cfg = demo_cfg and clk = "instant_clock ?t" and db = alice_db
        and resp = ?resp and ?db1.0 = "alice_logged_in_db ?t" and scheme = "''Bearer''"
        and c = "bearer_request ''tok''" and now = "?t + Hour" and token = ?token
        and ?db2.0 = "alice_deactivated_db ?t" and handlers = "[me]", OF hyp]
  have role: "Claims_Role (jwt_claims demo_cfg (instant_clock ?t) alice) = ''staff''"
    by (simp add: jwt_claims_def alice_def staff_role_def)
  from g role alice_locked_out [of ?lib demo_cfg "instant_clock ?t" ?t]
  show ?thesis by simp
qed

end
